theory Spec2Isabelle
  imports Main "HOL-Library.Word"
begin

section \<open>JavaScript values\<close>

text \<open>
  A JavaScript string is a list of UTF-16 code units (\<open>jsstring\<close>, below); a buffer is a
  list of bytes (\<^typ>\<open>string\<close>). The handlers of this model hold every string, secret or
  not, as the list of its UTF-8 bytes, which determines a string without unpaired
  surrogates; the two functions of crypto-utils.js are given on JavaScript strings, with
  Node's conversion written out, and on strings held as bytes. A value that may be
  \<open>null\<close> or \<open>undefined\<close> is an option. \<open>truthy\<close> is JavaScript's test \<open>if (v)\<close> on
  such a string: \<open>null\<close>, \<open>undefined\<close> and the empty string are falsy.
\<close>

fun truthy :: "string option \<Rightarrow> bool" where
  "truthy None = False"
| "truthy (Some s) = (s \<noteq> [])"

text \<open>\<open>str.split(c)\<close>: the segments between the occurrences of \<open>c\<close>; never empty.\<close>

fun split_on :: "char \<Rightarrow> string \<Rightarrow> string list" where
  "split_on c [] = [[]]"
| "split_on c (x # xs) =
     (if x = c then [] # split_on c xs
      else (case split_on c xs of [] \<Rightarrow> [[x]] | w # ws \<Rightarrow> (x # w) # ws))"

section \<open>Base64 as Node's Buffer encodes and decodes it\<close>

text \<open>
  \<open>buf.toString('base64')\<close> writes three bytes as four characters of the standard
  alphabet and pads the last group with \<open>=\<close>. \<open>Buffer.from(str, 'base64')\<close> is lenient:
  it stops at the first \<open>=\<close>, skips every character outside the alphabet (the URL-safe
  \<open>-\<close> and \<open>_\<close> count as \<open>+\<close> and \<open>/\<close>), and drops the bits of an incomplete last
  group without looking at them.
\<close>

definition b64_char :: "nat \<Rightarrow> char" where
  "b64_char n =
     (if n < 26 then char_of (n + 65)
      else if n < 52 then char_of (n + 71)
      else if n < 62 then char_of (n - 4)
      else if n = 62 then CHR ''+'' else CHR ''/'')"

definition unbase64 :: "char \<Rightarrow> nat option" where
  "unbase64 c =
     (let n = (of_char c :: nat) in
      if 65 \<le> n \<and> n \<le> 90 then Some (n - 65)
      else if 97 \<le> n \<and> n \<le> 122 then Some (n - 71)
      else if 48 \<le> n \<and> n \<le> 57 then Some (n + 4)
      else if n = 43 \<or> n = 45 then Some 62
      else if n = 47 \<or> n = 95 then Some 63
      else None)"

fun b64encode :: "string \<Rightarrow> string" where
  "b64encode [] = []"
| "b64encode [a] =
     [b64_char (of_char a div 4), b64_char ((of_char a mod 4) * 16), CHR ''='', CHR ''='']"
| "b64encode [a, b] =
     [b64_char (of_char a div 4),
      b64_char ((of_char a mod 4) * 16 + of_char b div 16),
      b64_char ((of_char b mod 16) * 4), CHR ''='']"
| "b64encode (a # b # c # rest) =
     [b64_char (of_char a div 4),
      b64_char ((of_char a mod 4) * 16 + of_char b div 16),
      b64_char ((of_char b mod 16) * 4 + of_char c div 64),
      b64_char (of_char c mod 64)] @ b64encode rest"

fun decode_sextets :: "nat list \<Rightarrow> string" where
  "decode_sextets (s1 # s2 # s3 # s4 # rest) =
     [char_of (s1 * 4 + s2 div 16),
      char_of ((s2 mod 16) * 16 + s3 div 4),
      char_of ((s3 mod 4) * 64 + s4)] @ decode_sextets rest"
| "decode_sextets [s1, s2, s3] =
     [char_of (s1 * 4 + s2 div 16), char_of ((s2 mod 16) * 16 + s3 div 4)]"
| "decode_sextets [s1, s2] = [char_of (s1 * 4 + s2 div 16)]"
| "decode_sextets _ = []"

definition b64decode :: "string \<Rightarrow> string" where
  "b64decode s =
     decode_sextets (List.map_filter unbase64 (takeWhile (\<lambda>c. c \<noteq> CHR ''='') s))"

section \<open>UTF-8 as Node converts a string\<close>

text \<open>
  \<open>cipher.update(plaintext, 'utf8', ...)\<close> writes the string as UTF-8: one to three bytes
  for a code unit outside the surrogate range, four bytes for a high surrogate followed by
  a low one, and the three bytes of U+FFFD for a surrogate that is not part of such a pair.
  \<open>decipher.update(..., 'utf8')\<close> with \<open>final('utf8')\<close> reads the bytes back as the
  WHATWG decoder does: a well-formed sequence gives its code point (two code units above
  U+FFFF), and every maximal ill-formed part gives one U+FFFD.
\<close>

type_synonym jsstring = "16 word list"

definition is_high_surrogate :: "16 word \<Rightarrow> bool" where
  "is_high_surrogate u = (0xD800 \<le> unat u \<and> unat u < 0xDC00)"

definition is_low_surrogate :: "16 word \<Rightarrow> bool" where
  "is_low_surrogate u = (0xDC00 \<le> unat u \<and> unat u < 0xE000)"

definition utf8_replacement :: string where
  "utf8_replacement = [char_of (0xEF :: nat), char_of (0xBF :: nat), char_of (0xBD :: nat)]"

definition utf8_of_unit :: "16 word \<Rightarrow> string" where
  "utf8_of_unit u =
     (let n = unat u in
      if n < 0x80 then [char_of n]
      else if n < 0x800 then [char_of (0xC0 + n div 64), char_of (0x80 + n mod 64)]
      else if is_high_surrogate u \<or> is_low_surrogate u then utf8_replacement
      else [char_of (0xE0 + n div 4096), char_of (0x80 + n div 64 mod 64),
            char_of (0x80 + n mod 64)])"

definition utf8_of_pair :: "16 word \<Rightarrow> 16 word \<Rightarrow> string" where
  "utf8_of_pair hi lo =
     (let cp = 0x10000 + (unat hi - 0xD800) * 1024 + (unat lo - 0xDC00) in
      [char_of (0xF0 + cp div 262144), char_of (0x80 + cp div 4096 mod 64),
       char_of (0x80 + cp div 64 mod 64), char_of (0x80 + cp mod 64)])"

fun utf8_encode :: "jsstring \<Rightarrow> string" where
  "utf8_encode [] = []"
| "utf8_encode [u] = utf8_of_unit u"
| "utf8_encode (u # v # vs) =
     (if is_high_surrogate u \<and> is_low_surrogate v then utf8_of_pair u v @ utf8_encode vs
      else utf8_of_unit u @ utf8_encode (v # vs))"

text \<open>A string is well formed when every surrogate is part of a high-low pair.\<close>

fun well_formed :: "jsstring \<Rightarrow> bool" where
  "well_formed [] = True"
| "well_formed [u] = (\<not> is_high_surrogate u \<and> \<not> is_low_surrogate u)"
| "well_formed (u # v # vs) =
     (if is_high_surrogate u then is_low_surrogate v \<and> well_formed vs
      else \<not> is_low_surrogate u \<and> well_formed (v # vs))"

definition is_cont :: "char \<Rightarrow> bool" where
  "is_cont c = (0x80 \<le> (of_char c :: nat) \<and> (of_char c :: nat) \<le> 0xBF)"

definition second_of_three :: "nat \<Rightarrow> char \<Rightarrow> bool" where
  "second_of_three lead c =
     (if lead = 0xE0 then 0xA0 \<le> (of_char c :: nat) \<and> (of_char c :: nat) \<le> 0xBF
      else if lead = 0xED then 0x80 \<le> (of_char c :: nat) \<and> (of_char c :: nat) \<le> 0x9F
      else is_cont c)"

definition second_of_four :: "nat \<Rightarrow> char \<Rightarrow> bool" where
  "second_of_four lead c =
     (if lead = 0xF0 then 0x90 \<le> (of_char c :: nat) \<and> (of_char c :: nat) \<le> 0xBF
      else if lead = 0xF4 then 0x80 \<le> (of_char c :: nat) \<and> (of_char c :: nat) \<le> 0x8F
      else is_cont c)"

definition cont_bits :: "char \<Rightarrow> nat" where
  "cont_bits c = of_char c - 0x80"

definition units_of_code_point :: "nat \<Rightarrow> jsstring" where
  "units_of_code_point cp =
     (if cp < 0x10000 then [of_nat cp]
      else [of_nat (0xD800 + (cp - 0x10000) div 1024), of_nat (0xDC00 + (cp - 0x10000) mod 1024)])"

fun utf8_decode :: "string \<Rightarrow> jsstring" where
  "utf8_decode [] = []"
| "utf8_decode (b # bs) =
     (let n = (of_char b :: nat) in
      if n < 0x80 then of_nat n # utf8_decode bs
      else if 0xC2 \<le> n \<and> n \<le> 0xDF then
        (case bs of
           [] \<Rightarrow> [0xFFFD]
         | c # cs \<Rightarrow>
             if is_cont c then of_nat ((n - 0xC0) * 64 + cont_bits c) # utf8_decode cs
             else 0xFFFD # utf8_decode bs)
      else if 0xE0 \<le> n \<and> n \<le> 0xEF then
        (case bs of
           [] \<Rightarrow> [0xFFFD]
         | c # cs \<Rightarrow>
             if second_of_three n c then
               (case cs of
                  [] \<Rightarrow> [0xFFFD]
                | d # ds \<Rightarrow>
                    if is_cont d
                    then of_nat ((n - 0xE0) * 4096 + cont_bits c * 64 + cont_bits d) # utf8_decode ds
                    else 0xFFFD # utf8_decode cs)
             else 0xFFFD # utf8_decode bs)
      else if 0xF0 \<le> n \<and> n \<le> 0xF4 then
        (case bs of
           [] \<Rightarrow> [0xFFFD]
         | c # cs \<Rightarrow>
             if second_of_four n c then
               (case cs of
                  [] \<Rightarrow> [0xFFFD]
                | d # ds \<Rightarrow>
                    if is_cont d then
                      (case ds of
                         [] \<Rightarrow> [0xFFFD]
                       | e # es \<Rightarrow>
                           if is_cont e
                           then units_of_code_point
                                  ((n - 0xF0) * 262144 + cont_bits c * 4096 + cont_bits d * 64 + cont_bits e)
                                @ utf8_decode es
                           else 0xFFFD # utf8_decode ds)
                    else 0xFFFD # utf8_decode cs)
             else 0xFFFD # utf8_decode bs)
      else 0xFFFD # utf8_decode bs)"

section \<open>crypto-utils.js\<close>

text \<open>
  Node's \<open>crypto\<close> module is outside the repository, so its primitives are parameters:
  the SHA-256 digest, and AES-256-GCM as a sealing function (key, nonce and plaintext to
  ciphertext and tag) and an opening function (key, nonce, tag and ciphertext to the
  plaintext, or \<open>None\<close> where \<open>createDecipheriv\<close>, \<open>setAuthTag\<close>, \<open>update\<close> or \<open>final\<close>
  throws: a bad nonce or tag length, or a tag that does not verify).
\<close>

record node_crypto =
  sha256 :: "string \<Rightarrow> string"
  gcm_seal :: "string \<Rightarrow> string \<Rightarrow> string \<Rightarrow> string \<times> string"
  gcm_open :: "string \<Rightarrow> string \<Rightarrow> string \<Rightarrow> string \<Rightarrow> string option"

datatype exn = TypeError | SyntaxError | DbError | FetchError | Error string

text \<open>
  \<open>getKey\<close> hashes \<open>process.env.SESSION_SECRET\<close>; \<open>hash.update(undefined)\<close> throws a
  TypeError when the variable is not set.
\<close>

fun getKey :: "node_crypto \<Rightarrow> string option \<Rightarrow> exn + string" where
  "getKey P None = Inl TypeError"
| "getKey P (Some secret) = Inr (sha256 P secret)"

text \<open>
  \<open>encrypt\<close>: \<open>iv\<close> is the value of \<open>crypto.randomBytes(12)\<close>. The result is \<open>null\<close>
  for a falsy plaintext; the exception of \<open>getKey\<close> is not caught. The token is the
  base64 of nonce, tag and ciphertext, joined by colons.
\<close>

fun encrypt :: "node_crypto \<Rightarrow> string option \<Rightarrow> string \<Rightarrow> jsstring option \<Rightarrow> exn + string option" where
  "encrypt P secret iv None = Inr None"
| "encrypt P secret iv (Some plaintext) =
     (if plaintext = [] then Inr None
      else (case getKey P secret of
              Inl e \<Rightarrow> Inl e
            | Inr key \<Rightarrow>
                (case gcm_seal P key iv (utf8_encode plaintext) of
                   (encrypted, tag) \<Rightarrow>
                     Inr (Some (b64encode iv @ '':'' @ b64encode tag @ '':'' @ b64encode encrypted)))))"

text \<open>
  \<open>decrypt\<close>: the whole body after the falsy test runs inside \<open>try\<close>, and \<open>catch\<close>
  returns \<open>null\<close>. The destructuring takes the first three segments; with fewer,
  \<open>Buffer.from(undefined, 'base64')\<close> or \<open>decipher.update(undefined, ...)\<close> throws.
\<close>

fun decrypt :: "node_crypto \<Rightarrow> string option \<Rightarrow> string option \<Rightarrow> jsstring option" where
  "decrypt P secret None = None"
| "decrypt P secret (Some stored) =
     (if stored = [] then None
      else (case getKey P secret of
              Inl e \<Rightarrow> None
            | Inr key \<Rightarrow>
                (case split_on CHR '':'' stored of
                   ivB64 # tagB64 # ciphertext # _ \<Rightarrow>
                     map_option utf8_decode
                       (gcm_open P key (b64decode ivB64) (b64decode tagB64) (b64decode ciphertext))
                 | _ \<Rightarrow> None)))"

text \<open>
  \<open>encrypt_utf8\<close> and \<open>decrypt_utf8\<close> are \<open>encrypt\<close> and \<open>decrypt\<close> for a plaintext held
  as its UTF-8 bytes, as the handlers below hold it: the same steps without the conversion.
\<close>

fun encrypt_utf8 :: "node_crypto \<Rightarrow> string option \<Rightarrow> string \<Rightarrow> string option \<Rightarrow> exn + string option" where
  "encrypt_utf8 P secret iv None = Inr None"
| "encrypt_utf8 P secret iv (Some plaintext) =
     (if plaintext = [] then Inr None
      else (case getKey P secret of
              Inl e \<Rightarrow> Inl e
            | Inr key \<Rightarrow>
                (case gcm_seal P key iv plaintext of
                   (encrypted, tag) \<Rightarrow>
                     Inr (Some (b64encode iv @ '':'' @ b64encode tag @ '':'' @ b64encode encrypted)))))"

fun decrypt_utf8 :: "node_crypto \<Rightarrow> string option \<Rightarrow> string option \<Rightarrow> string option" where
  "decrypt_utf8 P secret None = None"
| "decrypt_utf8 P secret (Some stored) =
     (if stored = [] then None
      else (case getKey P secret of
              Inl e \<Rightarrow> None
            | Inr key \<Rightarrow>
                (case split_on CHR '':'' stored of
                   ivB64 # tagB64 # ciphertext # _ \<Rightarrow>
                     gcm_open P key (b64decode ivB64) (b64decode tagB64) (b64decode ciphertext)
                 | _ \<Rightarrow> None)))"

text \<open>
  The contract of the cipher that the round trip rests on: under one key and nonce,
  opening the ciphertext and tag that sealing produced gives the plaintext back.
\<close>

definition opens_what_it_sealed :: "node_crypto \<Rightarrow> string \<Rightarrow> string \<Rightarrow> string \<Rightarrow> bool" where
  "opens_what_it_sealed P key iv pt =
     (case gcm_seal P key iv pt of (ct, tag) \<Rightarrow> gcm_open P key iv tag ct = Some pt)"

text \<open>
  A small cipher to evaluate the model on concrete inputs: the key is the secret itself,
  the ciphertext is the plaintext reversed, and the sixteen bytes of the tag are the sum of
  the bytes of key, nonce and ciphertext. It opens a ciphertext only under its own tag.
\<close>

definition demo_tag :: "string \<Rightarrow> string \<Rightarrow> string \<Rightarrow> string" where
  "demo_tag key iv ct =
     (let c = char_of (sum_list (map of_char (key @ iv @ ct)) :: nat)
      in [c, c, c, c, c, c, c, c, c, c, c, c, c, c, c, c])"

definition demo_crypto :: node_crypto where
  "demo_crypto =
     \<lparr>sha256 = (\<lambda>secret. secret),
      gcm_seal = (\<lambda>key iv pt. (rev pt, demo_tag key iv (rev pt))),
      gcm_open = (\<lambda>key iv tag ct. if tag = demo_tag key iv ct then Some (rev ct) else None)\<rparr>"

section \<open>The users table, sessions and the outside world\<close>

text \<open>
  One row of the \<open>users\<close> table (setup-db.js and the OAuth columns), with the columns
  the credential subsystem reads or writes. Timestamps are milliseconds since the epoch.
\<close>

record user =
  user_id :: nat
  account_id :: "nat option"
  role :: string
  first_name :: "string option"
  last_name :: "string option"
  company_name :: "string option"
  email :: "string option"
  ebay_token :: "string option"
  ebay_client_id :: "string option"
  ebay_client_secret :: "string option"
  example_template :: "string option"
  ebay_oauth_access_token :: "string option"
  ebay_oauth_refresh_token :: "string option"
  ebay_oauth_token_expiry :: "int option"
  ebay_oauth_username :: "string option"
  updated_at :: int

text \<open>\<open>req.session\<close>: the fields the handlers use. A destroyed session is \<open>None\<close>.\<close>

record session =
  userId :: "nat option"
  sess_role :: "string option"
  accountId :: "nat option"
  ebayOAuthState :: "string option"

text \<open>\<open>process.env\<close>.\<close>

record env =
  SESSION_SECRET :: "string option"
  EBAY_APP_CLIENT_ID :: "string option"
  EBAY_APP_CLIENT_SECRET :: "string option"
  EBAY_RUNAME :: "string option"

text \<open>
  What \<open>fetch\<close> gives back: the promise rejects (a network error), or there is a
  response with its \<open>ok\<close> flag and its body, \<open>None\<close> when \<open>resp.json()\<close> throws.
\<close>

datatype 'a fetched = Network_failure | Response bool "'a option"

text \<open>The JSON object of the provider's token endpoint.\<close>

record token_data =
  access_token :: "string option"
  refresh_token :: "string option"
  expires_in :: "int option"
  error_description :: "string option"
  error_code :: "string option"

text \<open>
  The calls a handler makes to the provider, in order: the code exchange (Basic
  credentials, code, redirect identifier), the refresh (Basic credentials, refresh token)
  and the identity lookup (bearer token).
\<close>

datatype http_call =
    Code_exchange string string string
  | Refresh_call string string
  | Identity_call string

text \<open>
  What one run of a handler observes of the outside: the clock at the expiry test
  (\<open>now\<close>) and when the new expiry is computed (\<open>now_later\<close>), the database's
  \<open>NOW()\<close>, the nonces of the calls to \<open>encrypt\<close>, whether each query throws, and
  the provider's answers.
\<close>

record io =
  now :: int
  now_later :: int
  db_now :: int
  iv1 :: string
  iv2 :: string
  iv3 :: string
  select_fails :: bool
  owner_select_fails :: bool
  update_fails :: bool
  profile_update_fails :: bool
  template_update_fails :: bool
  token_response :: "token_data fetched"
  identity_response :: "string option fetched"

text \<open>The state the handlers change: the table and the log of calls to the provider.\<close>

record world =
  users :: "user list"
  calls :: "http_call list"

text \<open>\<open>UPDATE users SET ... WHERE id = $n\<close>; a \<open>null\<close> parameter matches no row.\<close>

fun update_where :: "nat option \<Rightarrow> (user \<Rightarrow> user) \<Rightarrow> user list \<Rightarrow> user list" where
  "update_where None f rows = rows"
| "update_where (Some i) f rows = map (\<lambda>u. if user_id u = i then f u else u) rows"

text \<open>\<open>SELECT ... FROM users WHERE id = $n\<close>, first row.\<close>

fun select_user :: "user list \<Rightarrow> nat option \<Rightarrow> user option" where
  "select_user rows None = None"
| "select_user rows (Some i) = find (\<lambda>u. user_id u = i) rows"

text \<open>
  \<open>SELECT ... FROM users u JOIN users owner ON owner.id = u.account_id WHERE u.id = $1\<close>:
  the subject's row with its owner's row, or no row when either is missing.
\<close>

definition select_with_owner :: "user list \<Rightarrow> nat option \<Rightarrow> (user \<times> user) option" where
  "select_with_owner rows uid =
     (case select_user rows uid of
        None \<Rightarrow> None
      | Some u \<Rightarrow>
          (case select_user rows (account_id u) of
             None \<Rightarrow> None
           | Some owner \<Rightarrow> Some (u, owner)))"

text \<open>\<open>v || ''\<close> and \<open>v || null\<close> on an optional string, \<open>n || 7200\<close> on a number.\<close>

fun or_empty :: "string option \<Rightarrow> string" where
  "or_empty None = []"
| "or_empty (Some s) = s"

definition or_null :: "string option \<Rightarrow> string option" where
  "or_null v = (if truthy v then v else None)"

fun or_7200 :: "int option \<Rightarrow> int" where
  "or_7200 None = 7200"
| "or_7200 (Some n) = (if n = 0 then 7200 else n)"

text \<open>\<open>if (req.session.userId)\<close>: a number is falsy when it is missing or zero.\<close>

fun truthy_id :: "nat option \<Rightarrow> bool" where
  "truthy_id None = False"
| "truthy_id (Some n) = (n \<noteq> 0)"

section \<open>middleware/auth.js\<close>

text \<open>
  A handler answers with a JSON error and its status, with \<open>{ success: true }\<close>, or with
  a redirect; a middleware either answers or calls \<open>next()\<close>.
\<close>

datatype response = Json_error nat string | Json_success | Redirect string

datatype 'a passed = Next 'a | Stop response

fun starts_with :: "string \<Rightarrow> string \<Rightarrow> bool" where
  "starts_with s [] = True"
| "starts_with [] (p # ps) = False"
| "starts_with (c # cs) (p # ps) = (c = p \<and> starts_with cs ps)"

fun requireAuth :: "session option \<Rightarrow> string \<Rightarrow> unit passed" where
  "requireAuth None path =
     (if starts_with path ''/api/'' then Stop (Json_error 401 ''Not authenticated'')
      else Stop (Redirect ''/login.html''))"
| "requireAuth (Some s) path =
     (if truthy_id (userId s) then Next ()
      else if starts_with path ''/api/'' then Stop (Json_error 401 ''Not authenticated'')
      else Stop (Redirect ''/login.html''))"

fun requireRole :: "string list \<Rightarrow> session option \<Rightarrow> unit passed" where
  "requireRole roles None = Stop (Json_error 403 ''Insufficient permissions'')"
| "requireRole roles (Some s) =
     (case sess_role s of
        None \<Rightarrow> Stop (Json_error 403 ''Insufficient permissions'')
      | Some r \<Rightarrow>
          (if r = [] \<or> r \<notin> set roles then Stop (Json_error 403 ''Insufficient permissions'')
           else Next ()))"

text \<open>\<open>req.userConfig\<close>: the manual keys, and since the OAuth change the OAuth state.\<close>

record manual_keys =
  ebayToken :: string
  ebayClientId :: string
  ebayClientSecret :: string

record userConfig = manual_keys +
  ebayOAuthToken :: "string option"
  ebayOAuthConnected :: bool
  ebayOAuthUsername :: "string option"

text \<open>The session after the role and account of the fresh row are written into it.\<close>

definition sync_session :: "user \<Rightarrow> session \<Rightarrow> session" where
  "sync_session row s = s\<lparr>sess_role := Some (role row), accountId := account_id row\<rparr>"

text \<open>
  \<open>loadUserConfig\<close> before the OAuth change (the first of the two versions of the file).
  The result is the session (\<open>None\<close> once destroyed) and what the middleware did;
  \<open>Next None\<close> is \<open>next()\<close> with no \<open>req.userConfig\<close>.
\<close>

fun loadUserConfig_manual ::
  "node_crypto \<Rightarrow> env \<Rightarrow> io \<Rightarrow> user list \<Rightarrow> session option
     \<Rightarrow> session option \<times> manual_keys option passed" where
  "loadUserConfig_manual P e x rows None = (None, Next None)"
| "loadUserConfig_manual P e x rows (Some s) =
     (if \<not> truthy_id (userId s) then (Some s, Next None)
      else if select_fails x then (Some s, Stop (Json_error 500 ''Internal server error''))
      else (case select_with_owner rows (userId s) of
              None \<Rightarrow> (None, Stop (Json_error 401 ''User not found''))
            | Some (row, owner) \<Rightarrow>
                (Some (sync_session row s),
                 Next (Some \<lparr>ebayToken = or_empty (decrypt_utf8 P (SESSION_SECRET e) (ebay_token owner)),
                              ebayClientId = or_empty (decrypt_utf8 P (SESSION_SECRET e) (ebay_client_id owner)),
                              ebayClientSecret = or_empty (decrypt_utf8 P (SESSION_SECRET e) (ebay_client_secret owner))\<rparr>))))"

text \<open>
  \<open>refreshEbayOAuthToken\<close>. The Basic credentials are the base64 of
  \<open>clientId:clientSecret\<close>. The result is the value returned or the exception thrown,
  with the world after the call: the request is logged before its answer is read, and
  the row is written only when nothing threw.
\<close>

definition basic_credentials :: "string \<Rightarrow> string \<Rightarrow> string" where
  "basic_credentials clientId clientSecret = b64encode (clientId @ '':'' @ clientSecret)"

definition refresh_error :: "token_data \<Rightarrow> exn" where
  "refresh_error d =
     Error (if truthy (error_description d) then or_empty (error_description d)
            else if truthy (error_code d) then or_empty (error_code d)
            else ''Token refresh failed'')"

definition persist_refreshed ::
  "node_crypto \<Rightarrow> env \<Rightarrow> io \<Rightarrow> token_data \<Rightarrow> nat option \<Rightarrow> world \<Rightarrow> (exn + string option) \<times> world" where
  "persist_refreshed P e x d acct w =
     (let newExpiry = now_later x + or_7200 (expires_in d) * 1000 in
      if truthy (refresh_token d) then
        (case encrypt_utf8 P (SESSION_SECRET e) (iv1 x) (access_token d) of
           Inl err \<Rightarrow> (Inl err, w)
         | Inr encAccess \<Rightarrow>
             (case encrypt_utf8 P (SESSION_SECRET e) (iv2 x) (refresh_token d) of
                Inl err \<Rightarrow> (Inl err, w)
              | Inr encRefresh \<Rightarrow>
                  if update_fails x then (Inl DbError, w)
                  else (Inr (access_token d),
                        w\<lparr>users := update_where acct
                             (\<lambda>u. u\<lparr>ebay_oauth_access_token := encAccess,
                                     ebay_oauth_token_expiry := Some newExpiry,
                                     ebay_oauth_refresh_token := encRefresh,
                                     updated_at := db_now x\<rparr>) (users w)\<rparr>)))
      else
        (case encrypt_utf8 P (SESSION_SECRET e) (iv1 x) (access_token d) of
           Inl err \<Rightarrow> (Inl err, w)
         | Inr encAccess \<Rightarrow>
             if update_fails x then (Inl DbError, w)
             else (Inr (access_token d),
                   w\<lparr>users := update_where acct
                        (\<lambda>u. u\<lparr>ebay_oauth_access_token := encAccess,
                                ebay_oauth_token_expiry := Some newExpiry,
                                updated_at := db_now x\<rparr>) (users w)\<rparr>)))"

definition refreshEbayOAuthToken ::
  "node_crypto \<Rightarrow> env \<Rightarrow> io \<Rightarrow> string option \<Rightarrow> nat option \<Rightarrow> world \<Rightarrow> (exn + string option) \<times> world" where
  "refreshEbayOAuthToken P e x refreshToken acct w =
     (if \<not> truthy (EBAY_APP_CLIENT_ID e) \<or> \<not> truthy (EBAY_APP_CLIENT_SECRET e)
         \<or> \<not> truthy refreshToken then (Inr None, w)
      else
        (let credentials = basic_credentials (or_empty (EBAY_APP_CLIENT_ID e))
                             (or_empty (EBAY_APP_CLIENT_SECRET e));
             w1 = w\<lparr>calls := calls w @ [Refresh_call credentials (or_empty refreshToken)]\<rparr>
         in (case token_response x of
               Network_failure \<Rightarrow> (Inl FetchError, w1)
             | Response ok None \<Rightarrow> (Inl SyntaxError, w1)
             | Response ok (Some d) \<Rightarrow>
                 if \<not> ok \<or> \<not> truthy (access_token d) then (Inl (refresh_error d), w1)
                 else persist_refreshed P e x d acct w1)))"

text \<open>
  \<open>loadUserConfig\<close> with OAuth. \<open>EXPIRY_BUFFER_MS\<close> is five minutes. The inner
  \<open>try\<close> swallows whatever the refresh throws.
\<close>

definition EXPIRY_BUFFER_MS :: int where
  "EXPIRY_BUFFER_MS = 5 * 60 * 1000"

definition isExpired :: "io \<Rightarrow> int option \<Rightarrow> bool" where
  "isExpired x expiry = (case expiry of None \<Rightarrow> True | Some t \<Rightarrow> now x > t - EXPIRY_BUFFER_MS)"

definition base_config :: "node_crypto \<Rightarrow> env \<Rightarrow> user \<Rightarrow> userConfig" where
  "base_config P e owner =
     \<lparr>ebayToken = or_empty (decrypt_utf8 P (SESSION_SECRET e) (ebay_token owner)),
      ebayClientId = or_empty (decrypt_utf8 P (SESSION_SECRET e) (ebay_client_id owner)),
      ebayClientSecret = or_empty (decrypt_utf8 P (SESSION_SECRET e) (ebay_client_secret owner)),
      ebayOAuthToken = None,
      ebayOAuthConnected = False,
      ebayOAuthUsername = or_null (ebay_oauth_username owner)\<rparr>"

definition resolve ::
  "node_crypto \<Rightarrow> env \<Rightarrow> io \<Rightarrow> user \<Rightarrow> user \<Rightarrow> world \<Rightarrow> userConfig \<times> world" where
  "resolve P e x row owner w =
     (let cfg = base_config P e owner in
      if truthy (ebay_oauth_access_token owner) then
        (if \<not> isExpired x (ebay_oauth_token_expiry owner) then
           (cfg\<lparr>ebayOAuthToken := decrypt_utf8 P (SESSION_SECRET e) (ebay_oauth_access_token owner),
                ebayOAuthConnected := True\<rparr>, w)
         else if truthy (ebay_oauth_refresh_token owner) then
           (case refreshEbayOAuthToken P e x
                   (decrypt_utf8 P (SESSION_SECRET e) (ebay_oauth_refresh_token owner))
                   (account_id row) w of
              (Inl err, w') \<Rightarrow> (cfg, w')
            | (Inr refreshed, w') \<Rightarrow>
                if truthy refreshed
                then (cfg\<lparr>ebayOAuthToken := refreshed, ebayOAuthConnected := True\<rparr>, w')
                else (cfg, w'))
         else (cfg, w))
      else (cfg, w))"

fun loadUserConfig ::
  "node_crypto \<Rightarrow> env \<Rightarrow> io \<Rightarrow> world \<Rightarrow> session option
     \<Rightarrow> world \<times> session option \<times> userConfig option passed" where
  "loadUserConfig P e x w None = (w, None, Next None)"
| "loadUserConfig P e x w (Some s) =
     (if \<not> truthy_id (userId s) then (w, Some s, Next None)
      else if select_fails x then (w, Some s, Stop (Json_error 500 ''Internal server error''))
      else (case select_with_owner (users w) (userId s) of
              None \<Rightarrow> (w, None, Stop (Json_error 401 ''User not found''))
            | Some (row, owner) \<Rightarrow>
                (case resolve P e x row owner w of
                   (cfg, w') \<Rightarrow> (w', Some (sync_session row s), Next (Some cfg)))))"

section \<open>routes/ebay-oauth.js\<close>

definition EBAY_OAUTH_SCOPES :: string where
  "EBAY_OAUTH_SCOPES =
     ''https://api.ebay.com/oauth/api_scope'' @ '' '' @
     ''https://api.ebay.com/oauth/api_scope/sell.inventory'' @ '' '' @
     ''https://api.ebay.com/oauth/api_scope/sell.account'' @ '' '' @
     ''https://api.ebay.com/oauth/api_scope/sell.fulfillment'' @ '' '' @
     ''https://api.ebay.com/oauth/api_scope/commerce.identity.readonly''"

text \<open>
  The query string of the callback, and what the routes answer: a response, or the
  redirect to the provider's consent page with its client id, redirect identifier, scope
  and state.
\<close>

record callback_query =
  code :: "string option"
  state :: "string option"
  error :: "string option"

datatype oauth_response = Plain response | Redirect_authorize string string string string

text \<open>
  \<open>GET /initiate\<close>; \<open>fresh\<close> is \<open>crypto.randomBytes(16).toString('hex')\<close>.
\<close>

definition initiate :: "env \<Rightarrow> string \<Rightarrow> session \<Rightarrow> session \<times> oauth_response" where
  "initiate e fresh s =
     (if \<not> truthy (EBAY_APP_CLIENT_ID e) \<or> \<not> truthy (EBAY_RUNAME e) then
        (s, Plain (Json_error 500
           ''eBay OAuth is not configured. EBAY_APP_CLIENT_ID and EBAY_RUNAME must be set.''))
      else (s\<lparr>ebayOAuthState := Some fresh\<rparr>,
            Redirect_authorize (or_empty (EBAY_APP_CLIENT_ID e)) (or_empty (EBAY_RUNAME e))
              EBAY_OAUTH_SCOPES fresh))"

text \<open>
  The part of the callback inside \<open>try\<close>: the code exchange, the best-effort identity
  lookup and the update of the owner's row. \<open>Inl\<close> is what \<open>catch\<close> receives.
\<close>

definition identity_label :: "string option fetched \<Rightarrow> string option" where
  "identity_label r =
     (case r of
        Response True (Some username) \<Rightarrow> or_null username
      | _ \<Rightarrow> None)"

definition store_tokens ::
  "node_crypto \<Rightarrow> env \<Rightarrow> io \<Rightarrow> token_data \<Rightarrow> string option \<Rightarrow> nat option \<Rightarrow> world
     \<Rightarrow> exn + world" where
  "store_tokens P e x d ebayUsername acct w =
     (let refreshToken = or_null (refresh_token d);
          tokenExpiry = now x + or_7200 (expires_in d) * 1000
      in (case encrypt_utf8 P (SESSION_SECRET e) (iv1 x) (access_token d) of
            Inl err \<Rightarrow> Inl err
          | Inr encAccess \<Rightarrow>
              (case (if truthy refreshToken
                     then encrypt_utf8 P (SESSION_SECRET e) (iv2 x) refreshToken else Inr None) of
                 Inl err \<Rightarrow> Inl err
               | Inr encRefresh \<Rightarrow>
                   if update_fails x then Inl DbError
                   else Inr (w\<lparr>users := update_where acct
                               (\<lambda>u. u\<lparr>ebay_oauth_access_token := encAccess,
                                       ebay_oauth_refresh_token := encRefresh,
                                       ebay_oauth_token_expiry := Some tokenExpiry,
                                       ebay_oauth_username := ebayUsername,
                                       updated_at := db_now x\<rparr>) (users w)\<rparr>))))"

definition exchange ::
  "node_crypto \<Rightarrow> env \<Rightarrow> io \<Rightarrow> string \<Rightarrow> session \<Rightarrow> world \<Rightarrow> world \<times> response" where
  "exchange P e x the_code s w =
     (let credentials = basic_credentials (or_empty (EBAY_APP_CLIENT_ID e))
                          (or_empty (EBAY_APP_CLIENT_SECRET e));
          w1 = w\<lparr>calls := calls w @ [Code_exchange credentials the_code (or_empty (EBAY_RUNAME e))]\<rparr>
      in (case token_response x of
            Network_failure \<Rightarrow> (w1, Redirect ''/config.html?ebay_oauth=error&reason=server_error'')
          | Response ok None \<Rightarrow> (w1, Redirect ''/config.html?ebay_oauth=error&reason=server_error'')
          | Response ok (Some d) \<Rightarrow>
              if \<not> ok \<or> \<not> truthy (access_token d)
              then (w1, Redirect ''/config.html?ebay_oauth=error&reason=token_exchange'')
              else
                (let w2 = w1\<lparr>calls := calls w1 @ [Identity_call (or_empty (access_token d))]\<rparr>;
                     ebayUsername = identity_label (identity_response x)
                 in (case store_tokens P e x d ebayUsername (accountId s) w2 of
                       Inl err \<Rightarrow> (w2, Redirect ''/config.html?ebay_oauth=error&reason=server_error'')
                     | Inr w3 \<Rightarrow> (w3, Redirect ''/config.html?ebay_oauth=success'')))))"

text \<open>\<open>GET /callback\<close>, after \<open>requireAuth\<close>.\<close>

definition callback ::
  "node_crypto \<Rightarrow> env \<Rightarrow> io \<Rightarrow> callback_query \<Rightarrow> session \<Rightarrow> world
     \<Rightarrow> world \<times> session \<times> response" where
  "callback P e x q s w =
     (let savedState = ebayOAuthState s;
          s' = s\<lparr>ebayOAuthState := None\<rparr>
      in if error q = Some ''access_denied'' \<or> error q = Some ''consent_declined''
         then (w, s', Redirect ''/config.html?ebay_oauth=declined'')
         else if \<not> truthy savedState \<or> state q \<noteq> savedState
         then (w, s', Redirect ''/config.html?ebay_oauth=error&reason=invalid_state'')
         else if \<not> truthy (code q)
         then (w, s', Redirect ''/config.html?ebay_oauth=declined'')
         else if \<not> truthy (EBAY_APP_CLIENT_ID e) \<or> \<not> truthy (EBAY_APP_CLIENT_SECRET e)
                 \<or> \<not> truthy (EBAY_RUNAME e)
         then (w, s', Redirect ''/config.html?ebay_oauth=error&reason=server_error'')
         else (case exchange P e x (or_empty (code q)) s' w of
                 (w', r) \<Rightarrow> (w', s', r)))"

text \<open>\<open>POST /disconnect\<close>, after \<open>requireAuth\<close> and \<open>requireRole('admin')\<close>.\<close>

definition disconnect :: "io \<Rightarrow> session \<Rightarrow> world \<Rightarrow> world \<times> response" where
  "disconnect x s w =
     (if update_fails x then (w, Json_error 500 ''Failed to disconnect eBay account'')
      else (w\<lparr>users := update_where (accountId s)
                 (\<lambda>u. u\<lparr>ebay_oauth_access_token := None,
                         ebay_oauth_refresh_token := None,
                         ebay_oauth_token_expiry := None,
                         ebay_oauth_username := None,
                         updated_at := db_now x\<rparr>) (users w)\<rparr>,
            Json_success))"

section \<open>routes/config.js\<close>

text \<open>
  \<open>mask\<close> of \<open>GET /api/config\<close>: \<open>substring(0, 6)\<close> is the first six characters
  (all of a shorter string) and \<open>slice(-4)\<close> the last four (all of a shorter string).
  The field \<open>set\<close> of the source is \<open>is_set\<close>.
\<close>

record masked =
  is_set :: bool
  preview :: string

definition mask :: "node_crypto \<Rightarrow> env \<Rightarrow> string option \<Rightarrow> masked" where
  "mask P e enc =
     (if \<not> truthy enc then \<lparr>is_set = False, preview = []\<rparr>
      else (case decrypt_utf8 P (SESSION_SECRET e) enc of
              None \<Rightarrow> \<lparr>is_set = False, preview = []\<rparr>
            | Some plain \<Rightarrow>
                if plain = [] then \<lparr>is_set = False, preview = []\<rparr>
                else \<lparr>is_set = True,
                      preview = take 6 plain @ ''...'' @ drop (length plain - 4) plain\<rparr>))"

text \<open>
  The JSON of the read. The key previews are present for an admin only. A missing owner
  row reads as \<open>{}\<close>: every column undefined.
\<close>

record config_view =
  view_first_name :: string
  view_last_name :: string
  view_company_name :: string
  view_email :: string
  view_example_template :: string
  view_role :: "string option"
  view_ebay_token :: "masked option"
  view_ebay_client_id :: "masked option"
  view_ebay_client_secret :: "masked option"

definition owner_column :: "user option \<Rightarrow> (user \<Rightarrow> string option) \<Rightarrow> string option" where
  "owner_column owner col = (case owner of None \<Rightarrow> None | Some u \<Rightarrow> col u)"

definition get_config ::
  "node_crypto \<Rightarrow> env \<Rightarrow> io \<Rightarrow> user list \<Rightarrow> session \<Rightarrow> response + config_view" where
  "get_config P e x rows s =
     (if select_fails x then Inl (Json_error 500 ''Failed to load config'')
      else (case select_user rows (userId s) of
              None \<Rightarrow> Inl (Json_error 404 ''User not found'')
            | Some profile \<Rightarrow>
                if owner_select_fails x then Inl (Json_error 500 ''Failed to load config'')
                else
                  (let owner = select_user rows (accountId s);
                       admin = (sess_role s = Some ''admin'')
                   in Inr \<lparr>view_first_name = or_empty (first_name profile),
                           view_last_name = or_empty (last_name profile),
                           view_company_name = or_empty (company_name profile),
                           view_email = or_empty (email profile),
                           view_example_template = or_empty (owner_column owner example_template),
                           view_role = sess_role s,
                           view_ebay_token =
                             (if admin then Some (mask P e (owner_column owner ebay_token)) else None),
                           view_ebay_client_id =
                             (if admin then Some (mask P e (owner_column owner ebay_client_id)) else None),
                           view_ebay_client_secret =
                             (if admin then Some (mask P e (owner_column owner ebay_client_secret))
                              else None)\<rparr>)))"

text \<open>
  A field of the JSON body of the write: missing (\<open>undefined\<close>), \<open>null\<close>, or a string.
\<close>

datatype jsval = Undefined | Null | Str string

fun truthy_js :: "jsval \<Rightarrow> bool" where
  "truthy_js (Str s) = (s \<noteq> [])"
| "truthy_js _ = False"

fun js_or_null :: "jsval \<Rightarrow> string option" where
  "js_or_null (Str s) = (if s = [] then None else Some s)"
| "js_or_null _ = None"

record config_body =
  body_first_name :: jsval
  body_last_name :: jsval
  body_company_name :: jsval
  body_email :: jsval
  body_ebay_token :: jsval
  body_ebay_client_id :: jsval
  body_ebay_client_secret :: jsval
  body_example_template :: jsval

text \<open>
  Step 1 of \<open>PUT /api/config\<close>: every profile field that is not \<open>undefined\<close> sets its
  column to \<open>val || null\<close> on the user's own row; no query when there is none.
\<close>

definition set_profile :: "config_body \<Rightarrow> int \<Rightarrow> user \<Rightarrow> user" where
  "set_profile b t u =
     (let u1 = (if body_first_name b \<noteq> Undefined
                then u\<lparr>first_name := js_or_null (body_first_name b)\<rparr> else u);
          u2 = (if body_last_name b \<noteq> Undefined
                then u1\<lparr>last_name := js_or_null (body_last_name b)\<rparr> else u1);
          u3 = (if body_company_name b \<noteq> Undefined
                then u2\<lparr>company_name := js_or_null (body_company_name b)\<rparr> else u2);
          u4 = (if body_email b \<noteq> Undefined
                then u3\<lparr>email := js_or_null (body_email b)\<rparr> else u3)
      in u4\<lparr>updated_at := t\<rparr>)"

definition put_profile :: "io \<Rightarrow> config_body \<Rightarrow> session \<Rightarrow> user list \<Rightarrow> exn + user list" where
  "put_profile x b s rows =
     (if body_first_name b = Undefined \<and> body_last_name b = Undefined
         \<and> body_company_name b = Undefined \<and> body_email b = Undefined then Inr rows
      else if profile_update_fails x then Inl DbError
      else Inr (update_where (userId s) (set_profile b (db_now x)) rows))"

text \<open>
  Step 2, inside the guard and after the role test: every key field that is not
  \<open>undefined\<close> sets its column to \<open>val ? encrypt(val) : null\<close> on the owner's row.
\<close>

definition key_value :: "node_crypto \<Rightarrow> env \<Rightarrow> string \<Rightarrow> jsval \<Rightarrow> exn + string option" where
  "key_value P e iv v =
     (if v = Undefined then Inr None
      else if truthy_js v then encrypt_utf8 P (SESSION_SECRET e) iv (js_or_null v)
      else Inr None)"

definition set_keys ::
  "config_body \<Rightarrow> string option \<Rightarrow> string option \<Rightarrow> string option \<Rightarrow> int \<Rightarrow> user \<Rightarrow> user" where
  "set_keys b tok cid sec t u =
     (let u1 = (if body_ebay_token b \<noteq> Undefined then u\<lparr>ebay_token := tok\<rparr> else u);
          u2 = (if body_ebay_client_id b \<noteq> Undefined then u1\<lparr>ebay_client_id := cid\<rparr> else u1);
          u3 = (if body_ebay_client_secret b \<noteq> Undefined
                then u2\<lparr>ebay_client_secret := sec\<rparr> else u2)
      in u3\<lparr>updated_at := t\<rparr>)"

definition put_keys ::
  "node_crypto \<Rightarrow> env \<Rightarrow> io \<Rightarrow> config_body \<Rightarrow> session \<Rightarrow> user list \<Rightarrow> exn + user list" where
  "put_keys P e x b s rows =
     (case key_value P e (iv1 x) (body_ebay_token b) of
        Inl err \<Rightarrow> Inl err
      | Inr tok \<Rightarrow>
          (case key_value P e (iv2 x) (body_ebay_client_id b) of
             Inl err \<Rightarrow> Inl err
           | Inr cid \<Rightarrow>
               (case key_value P e (iv3 x) (body_ebay_client_secret b) of
                  Inl err \<Rightarrow> Inl err
                | Inr sec \<Rightarrow>
                    if update_fails x then Inl DbError
                    else Inr (update_where (accountId s) (set_keys b tok cid sec (db_now x)) rows))))"

text \<open>Step 3: the template, on the owner's row, unless the role is operator.\<close>

definition put_template ::
  "io \<Rightarrow> config_body \<Rightarrow> session \<Rightarrow> user list \<Rightarrow> user list \<times> response" where
  "put_template x b s rows =
     (if body_example_template b \<noteq> Undefined then
        (if sess_role s = Some ''operator''
         then (rows, Json_error 403 ''Operators cannot update the listing template'')
         else if template_update_fails x then (rows, Json_error 500 ''Failed to save config'')
         else (update_where (accountId s)
                 (\<lambda>u. u\<lparr>example_template := js_or_null (body_example_template b),
                         updated_at := db_now x\<rparr>) rows,
               Json_success))
      else (rows, Json_success))"

text \<open>
  \<open>PUT /api/config\<close>, after \<open>requireAuth\<close>. The guard of step 2 is
  \<open>ebay_token || ebay_client_id || ebay_client_secret\<close>. A step that answers or throws
  leaves the writes of the steps before it in place.
\<close>

definition put_config ::
  "node_crypto \<Rightarrow> env \<Rightarrow> io \<Rightarrow> config_body \<Rightarrow> session \<Rightarrow> user list \<Rightarrow> user list \<times> response" where
  "put_config P e x b s rows =
     (case put_profile x b s rows of
        Inl err \<Rightarrow> (rows, Json_error 500 ''Failed to save config'')
      | Inr rows1 \<Rightarrow>
          if truthy_js (body_ebay_token b) \<or> truthy_js (body_ebay_client_id b)
             \<or> truthy_js (body_ebay_client_secret b) then
            (if sess_role s \<noteq> Some ''admin''
             then (rows1, Json_error 403 ''Only admins can update eBay API keys'')
             else (case put_keys P e x b s rows1 of
                     Inl err \<Rightarrow> (rows1, Json_error 500 ''Failed to save config'')
                   | Inr rows2 \<Rightarrow> put_template x b s rows2))
          else put_template x b s rows1)"

section \<open>Properties and concrete inputs\<close>

text \<open>
  The invariant of the data model on one row: a stored access token has an expiry.
\<close>

definition oauth_consistent :: "user \<Rightarrow> bool" where
  "oauth_consistent u =
     (ebay_oauth_access_token u = None \<or> ebay_oauth_token_expiry u \<noteq> None)"

text \<open>
  A failed refresh call: the fetch rejects, the body is not JSON, the status is not 2xx,
  or the body has no access token.
\<close>

fun refresh_failed :: "token_data fetched \<Rightarrow> bool" where
  "refresh_failed Network_failure = True"
| "refresh_failed (Response ok None) = True"
| "refresh_failed (Response ok (Some d)) = (\<not> ok \<or> \<not> truthy (access_token d))"

text \<open>
  An account for the concrete evaluations: the owner (id 1, admin) with manual keys and
  an OAuth connection that expires at 1000000 ms, and a sub-user (id 2, operator).
  \<open>sealed\<close> is \<open>encrypt_utf8\<close> under the demo cipher with a fixed nonce.
\<close>

definition sealed :: "string \<Rightarrow> string option" where
  "sealed s =
     (case encrypt_utf8 demo_crypto (Some ''k'') ''0123456789ab'' (Some s) of
        Inl err \<Rightarrow> None | Inr t \<Rightarrow> t)"

definition demo_env :: env where
  "demo_env =
     \<lparr>SESSION_SECRET = Some ''k'', EBAY_APP_CLIENT_ID = Some ''app'',
      EBAY_APP_CLIENT_SECRET = Some ''cert'', EBAY_RUNAME = Some ''ru''\<rparr>"

definition demo_owner :: user where
  "demo_owner =
     \<lparr>user_id = 1, account_id = Some 1, role = ''admin'',
      first_name = Some ''Ann'', last_name = Some ''Lee'', company_name = None,
      email = Some ''ann@example.com'',
      ebay_token = sealed ''manual-token'', ebay_client_id = sealed ''manual-id'',
      ebay_client_secret = sealed ''manual-secret'', example_template = None,
      ebay_oauth_access_token = sealed ''old-access'',
      ebay_oauth_refresh_token = sealed ''old-refresh'',
      ebay_oauth_token_expiry = Some 1000000,
      ebay_oauth_username = Some ''seller'', updated_at = 0\<rparr>"

definition demo_sub :: user where
  "demo_sub =
     \<lparr>user_id = 2, account_id = Some 1, role = ''operator'',
      first_name = Some ''Bob'', last_name = Some ''Ray'', company_name = None,
      email = Some ''bob@example.com'',
      ebay_token = None, ebay_client_id = None, ebay_client_secret = None,
      example_template = None,
      ebay_oauth_access_token = None, ebay_oauth_refresh_token = None,
      ebay_oauth_token_expiry = None, ebay_oauth_username = None, updated_at = 0\<rparr>"

definition demo_world :: world where
  "demo_world = \<lparr>users = [demo_owner, demo_sub], calls = []\<rparr>"

definition demo_session :: session where
  "demo_session =
     \<lparr>userId = Some 1, sess_role = Some ''admin'', accountId = Some 1,
      ebayOAuthState = Some ''5f2a''\<rparr>"

text \<open>
  The provider answers 200 with a new access token and no refresh token; no query
  fails. \<open>demo_io t\<close> is a run whose clock reads \<open>t\<close>.
\<close>

definition demo_token_data :: token_data where
  "demo_token_data =
     \<lparr>access_token = Some ''new-access'', refresh_token = None, expires_in = Some 3600,
      error_description = None, error_code = None\<rparr>"

definition demo_io :: "int \<Rightarrow> io" where
  "demo_io t =
     \<lparr>now = t, now_later = t + 40, db_now = t + 50,
      iv1 = ''nonce-one-12'', iv2 = ''nonce-two-12'', iv3 = ''nonce-333-12'',
      select_fails = False, owner_select_fails = False, update_fails = False,
      profile_update_fails = False, template_update_fails = False,
      token_response = Response True (Some demo_token_data),
      identity_response = Response True (Some (Some ''seller2''))\<rparr>"

text \<open>The body \<open>{ "ebay_token": "" }\<close> of a configuration write.\<close>

definition blank_token_body :: config_body where
  "blank_token_body =
     \<lparr>body_first_name = Undefined, body_last_name = Undefined, body_company_name = Undefined,
      body_email = Undefined, body_ebay_token = Str [], body_ebay_client_id = Undefined,
      body_ebay_client_secret = Undefined, body_example_template = Undefined\<rparr>"




section \<open>Lemmas on splitting and Base64\<close>

lemma split_on_no_sep: "c \<notin> set a \<Longrightarrow> split_on c a = [a]"
  by (induction a) auto

lemma split_on_append: "c \<notin> set a \<Longrightarrow> split_on c (a @ c # b) = a # split_on c b"
  by (induction a) (auto split: list.splits)

lemma split_three:
  assumes "CHR '':'' \<notin> set a" "CHR '':'' \<notin> set b" "CHR '':'' \<notin> set c"
  shows "split_on CHR '':'' (a @ CHR '':'' # b @ CHR '':'' # c) = [a, b, c]"
  using assms by (simp add: split_on_append split_on_no_sep)

lemma of_char_b64_char:
  "(of_char (b64_char n) :: nat) =
     (if n < 26 then n + 65 else if n < 52 then n + 71 else if n < 62 then n - 4
      else if n = 62 then 43 else 47)"
  by (simp add: b64_char_def)

lemma unbase64_b64_char: "n < 64 \<Longrightarrow> unbase64 (b64_char n) = Some n"
  by (auto simp: unbase64_def Let_def of_char_b64_char)

lemma b64_char_not_pad: "b64_char n \<noteq> CHR ''=''"
proof
  assume "b64_char n = CHR ''=''"
  then have "(of_char (b64_char n) :: nat) = of_char CHR ''=''" by simp
  then show False by (simp add: of_char_b64_char split: if_splits)
qed

lemma b64_char_not_colon: "b64_char n \<noteq> CHR '':''"
proof
  assume "b64_char n = CHR '':''"
  then have "(of_char (b64_char n) :: nat) = of_char CHR '':''" by simp
  then show False by (simp add: of_char_b64_char split: if_splits)
qed

lemma colon_notin_b64encode: "CHR '':'' \<notin> set (b64encode bs)"
  by (induction bs rule: b64encode.induct) (simp_all add: b64_char_not_colon [symmetric])

lemma sextet_bounds:
  fixes x y z :: nat
  assumes "x < 256" "y < 256" "z < 256"
  shows "x div 4 < 64" "x mod 4 * 16 + y div 16 < 64" "y mod 16 * 4 + z div 64 < 64"
    "z mod 64 < 64" "x mod 4 * 16 < 64" "y mod 16 * 4 < 64"
  using assms by simp_all

lemma byte_nibbles:
  fixes y :: nat
  assumes "y < 256"
  shows "y div 16 div 16 = 0" and "y div 16 mod 16 * 16 + y mod 16 = y"
    and "y div 64 div 4 = 0" and "y div 64 mod 4 * 64 + y mod 64 = y"
  using assms by simp_all

text \<open>Decoding undoes encoding, byte for byte.\<close>

lemma b64decode_b64encode: "b64decode (b64encode bs) = bs"
proof (induction bs rule: b64encode.induct)
  case 1
  then show ?case by (simp add: b64decode_def List.map_filter_simps)
next
  case (2 a)
  have a: "(of_char a :: nat) < 256" by simp
  show ?case
    by (simp add: b64decode_def List.map_filter_simps b64_char_not_pad unbase64_b64_char
        sextet_bounds [OF a a a])
next
  case (3 a b)
  have a: "(of_char a :: nat) < 256" and b: "(of_char b :: nat) < 256" by simp_all
  note byte_nibbles [OF b]
  then show ?case
    by (simp add: b64decode_def List.map_filter_simps b64_char_not_pad unbase64_b64_char
        sextet_bounds [OF a b b] sextet_bounds [OF b b b])
next
  case (4 a b c rest)
  have a: "(of_char a :: nat) < 256" and b: "(of_char b :: nat) < 256"
    and c: "(of_char c :: nat) < 256" by simp_all
  from 4 show ?case
    by (simp add: b64decode_def List.map_filter_simps b64_char_not_pad unbase64_b64_char
        sextet_bounds [OF a b c] byte_nibbles [OF b] byte_nibbles [OF c])
qed

section \<open>Lemmas on UTF-8\<close>

lemma decode_1:
  assumes "n < 0x80"
  shows "utf8_decode (char_of (n :: nat) # rest) = of_nat n # utf8_decode rest"
  using assms by simp

lemma decode_2:
  fixes n :: nat
  assumes "0x80 \<le> n" and "n < 0x800"
  shows "utf8_decode (char_of (0xC0 + n div 64) # char_of (0x80 + n mod 64) # rest) =
           of_nat n # utf8_decode rest"
proof -
  have b1: "(0xC0 + n div 64) mod 256 = 0xC0 + n div 64" "0xC2 \<le> 0xC0 + n div 64"
    "0xC0 + n div 64 \<le> 0xDF" "\<not> 0xC0 + n div 64 < 0x80"
    using assms by simp_all
  have b2: "(0x80 + n mod 64) mod 256 = 0x80 + n mod 64"
    by simp
  have v: "(0xC0 + n div 64 - 0xC0) * 64 + (0x80 + n mod 64 - 0x80) = n"
    by simp
  show ?thesis
    using b1 v by (simp add: is_cont_def cont_bits_def b2 Let_def)
qed


lemma mid_digit_bound:
  fixes n a d k :: nat
  assumes "n div (a * 64) = d" and "n < a * 64 * d + a * k" and "0 < a"
  shows "n div a mod 64 < k"
proof -
  define q where "q = n div a mod 64"
  define p where "p = n mod (a * 64)"
  have "p = a * q + n mod a"
    unfolding p_def q_def by (rule mod_mult2_eq)
  then have "a * q \<le> p" by simp
  moreover have "n = a * 64 * d + p"
    unfolding p_def using assms(1) by (metis mult_div_mod_eq)
  ultimately have "a * q < a * k" using assms(2) by linarith
  then show ?thesis unfolding q_def by simp
qed
lemma three_digits:
  fixes n :: nat
  shows "n div 4096 * 4096 + n div 64 mod 64 * 64 + n mod 64 = n"
proof -
  define q where "q = n div 64 mod 64"
  define r where "r = n mod 64"
  define p where "p = n mod 4096"
  define d where "d = n div 4096"
  have "p = 64 * q + r"
    unfolding p_def q_def r_def using mod_mult2_eq [of n 64 64] by simp
  moreover have "n = d * 4096 + p"
    unfolding p_def d_def by simp
  ultimately have "d * 4096 + q * 64 + r = n" by simp
  then show ?thesis unfolding q_def r_def d_def .
qed
lemma four_digits:
  fixes n :: nat
  shows "n div 262144 * 262144 + n div 4096 mod 64 * 4096 + n div 64 mod 64 * 64 + n mod 64 = n"
proof -
  define q2 where "q2 = n div 4096 mod 64"
  define q1 where "q1 = n div 64 mod 64"
  define r where "r = n mod 64"
  define p where "p = n mod 4096"
  define p2 where "p2 = n mod 262144"
  define d where "d = n div 262144"
  have "p = 64 * q1 + r"
    unfolding p_def q1_def r_def using mod_mult2_eq [of n 64 64] by simp
  moreover have "p2 = 4096 * q2 + p"
    unfolding p2_def q2_def p_def using mod_mult2_eq [of n 4096 64] by simp
  moreover have "n = d * 262144 + p2"
    unfolding p2_def d_def by simp
  ultimately have "d * 262144 + q2 * 4096 + q1 * 64 + r = n" by simp
  then show ?thesis unfolding q1_def q2_def r_def d_def .
qed

lemma decode_3:
  fixes n :: nat
  assumes "0x800 \<le> n" and "n < 0x10000" and "\<not> (0xD800 \<le> n \<and> n < 0xE000)"
  shows "utf8_decode (char_of (0xE0 + n div 4096) # char_of (0x80 + n div 64 mod 64)
            # char_of (0x80 + n mod 64) # rest) =
           of_nat n # utf8_decode rest"
proof -
  let ?l = "0xE0 + n div 4096"
  have b1: "?l mod 256 = ?l" "0xE0 \<le> ?l" "?l \<le> 0xEF" "\<not> ?l < 0x80" "\<not> (0xC2 \<le> ?l \<and> ?l \<le> 0xDF)"
    using assms by simp_all
  have b2: "(0x80 + n div 64 mod 64) mod 256 = 0x80 + n div 64 mod 64"
    "(0x80 + n mod 64) mod 256 = 0x80 + n mod 64"
    by simp_all
  have s2: "second_of_three ?l (char_of (0x80 + n div 64 mod 64))"
  proof -
    have "?l = 0xE0 \<Longrightarrow> 32 \<le> n div 64 mod 64"
      using assms by simp
    moreover have "n div 64 mod 64 < 32" if "?l = 0xED"
    proof -
      from that have d: "n div 4096 = 13" by simp
      then have "n div 4096 < 14" by simp
      then have "n < 57344" by (simp add: div_less_iff_less_mult)
      with assms(3) have "n < 55296" by simp
      with mid_digit_bound [of n 64 13 32] d show ?thesis by simp
    qed
    ultimately show ?thesis
      by (auto simp: second_of_three_def is_cont_def b2)
  qed
  have v: "(?l - 0xE0) * 4096 + (0x80 + n div 64 mod 64 - 0x80) * 64 + (0x80 + n mod 64 - 0x80) = n"
    using three_digits [of n] by simp
  show ?thesis
    using b1 s2 v by (simp add: is_cont_def cont_bits_def b2 Let_def)
qed

lemma decode_4:
  fixes cp :: nat
  assumes "0x10000 \<le> cp" and "cp < 0x110000"
  shows "utf8_decode (char_of (0xF0 + cp div 262144) # char_of (0x80 + cp div 4096 mod 64)
            # char_of (0x80 + cp div 64 mod 64) # char_of (0x80 + cp mod 64) # rest) =
           units_of_code_point cp @ utf8_decode rest"
proof -
  let ?l = "0xF0 + cp div 262144"
  have b1: "?l mod 256 = ?l" "0xF0 \<le> ?l" "?l \<le> 0xF4" "\<not> ?l < 0x80"
    "\<not> (0xC2 \<le> ?l \<and> ?l \<le> 0xDF)" "\<not> (0xE0 \<le> ?l \<and> ?l \<le> 0xEF)"
    using assms by simp_all
  have b2: "(0x80 + cp div 4096 mod 64) mod 256 = 0x80 + cp div 4096 mod 64"
    "(0x80 + cp div 64 mod 64) mod 256 = 0x80 + cp div 64 mod 64"
    "(0x80 + cp mod 64) mod 256 = 0x80 + cp mod 64"
    by simp_all
  have s2: "second_of_four ?l (char_of (0x80 + cp div 4096 mod 64))"
  proof -
    have "?l = 0xF0 \<Longrightarrow> 16 \<le> cp div 4096 mod 64"
      using assms by simp
    moreover have "cp div 4096 mod 64 < 16" if "?l = 0xF4"
    proof -
      from that have "cp div 262144 = 4" by simp
      with mid_digit_bound [of cp 4096 4 16] assms(2) show ?thesis by simp
    qed
    ultimately show ?thesis
      by (auto simp: second_of_four_def is_cont_def b2)
  qed
  have v: "(?l - 0xF0) * 262144 + (0x80 + cp div 4096 mod 64 - 0x80) * 4096
      + (0x80 + cp div 64 mod 64 - 0x80) * 64 + (0x80 + cp mod 64 - 0x80) = cp"
    using four_digits [of cp] by simp
  have "cp mod 64 < 64" "cp div 64 mod 64 < 64" by simp_all
  then have c: "cp mod 64 \<le> 63" "cp div 64 mod 64 \<le> 63" by linarith+
  show ?thesis
    using b1 s2 v c by (simp add: is_cont_def cont_bits_def b2 Let_def)
qed


lemma decode_of_unit:
  assumes "\<not> is_high_surrogate u" and "\<not> is_low_surrogate u"
  shows "utf8_decode (utf8_of_unit u @ rest) = u # utf8_decode rest"
proof -
  let ?n = "unat u"
  have n: "?n < 0x10000"
    using unsigned_less [of u] by simp
  from assms have ns: "\<not> (0xD800 \<le> ?n \<and> ?n < 0xE000)"
    by (auto simp: is_high_surrogate_def is_low_surrogate_def)
  consider "?n < 0x80" | "0x80 \<le> ?n" "?n < 0x800" | "0x800 \<le> ?n"
    by linarith
  then show ?thesis
  proof cases
    case 1
    then show ?thesis
      using decode_1 [of ?n rest] by (simp add: utf8_of_unit_def Let_def del: utf8_decode.simps)
  next
    case 2
    then show ?thesis
      using decode_2 [of ?n rest] by (simp add: utf8_of_unit_def Let_def del: utf8_decode.simps)
  next
    case 3
    with assms show ?thesis
      using decode_3 [OF 3 n ns, of rest] by (simp add: utf8_of_unit_def Let_def del: utf8_decode.simps)
  qed
qed

lemma decode_of_pair:
  assumes "is_high_surrogate u" and "is_low_surrogate v"
  shows "utf8_decode (utf8_of_pair u v @ rest) = u # v # utf8_decode rest"
proof -
  define h where "h = unat u - 0xD800"
  define l where "l = unat v - 0xDC00"
  from assms have hl: "h < 1024" "l < 1024" "unat u = 0xD800 + h" "unat v = 0xDC00 + l"
    by (auto simp: is_high_surrogate_def is_low_surrogate_def h_def l_def)
  let ?cp = "0x10000 + h * 1024 + l"
  have r: "0x10000 \<le> ?cp" "?cp < 0x110000"
    using hl by simp_all
  have "units_of_code_point ?cp = [of_nat (0xD800 + h), of_nat (0xDC00 + l)]"
    using hl by (simp add: units_of_code_point_def)
  also have "\<dots> = [u, v]"
    using hl(3,4) by (metis of_nat_unat ucast_id)
  finally have "units_of_code_point ?cp = [u, v]" .
  with decode_4 [OF r, of rest] show ?thesis
    by (simp add: utf8_of_pair_def h_def l_def Let_def del: utf8_decode.simps)
qed

lemma decode_replacement:
  "utf8_decode (utf8_replacement @ rest) = 0xFFFD # utf8_decode rest"
  using decode_3 [of "0xFFFD" rest] by (simp add: utf8_replacement_def del: utf8_decode.simps)

lemma utf8_decode_encode:
  "well_formed s \<Longrightarrow> utf8_decode (utf8_encode s) = s"
proof (induction s rule: utf8_encode.induct)
  case 1
  then show ?case by simp
next
  case (2 u)
  then show ?case using decode_of_unit [of u "[]"] by simp
next
  case (3 u v vs)
  show ?case
  proof (cases "is_high_surrogate u")
    case True
    with 3 show ?thesis by (simp add: decode_of_pair del: utf8_decode.simps)
  next
    case False
    with 3 show ?thesis by (simp add: decode_of_unit del: utf8_decode.simps)
  qed
qed

lemma utf8_encode_Nil: "utf8_encode s = [] \<longleftrightarrow> s = []"
proof -
  have u: "utf8_of_unit u \<noteq> []" for u
    by (simp add: utf8_of_unit_def utf8_replacement_def Let_def)
  have p: "utf8_of_pair u v \<noteq> []" for u v
    by (simp add: utf8_of_pair_def Let_def)
  show ?thesis
    by (cases s rule: utf8_encode.cases) (simp_all add: u p)
qed

section \<open>Evaluation on literals\<close>


lemmas b64_eval = b64decode_def unbase64_def List.map_filter_simps char_of_eq_iff
  Let_def b64_char_def

lemmas utf8_eval = utf8_of_unit_def utf8_of_pair_def utf8_replacement_def is_high_surrogate_def
  is_low_surrogate_def is_cont_def second_of_three_def second_of_four_def cont_bits_def
  units_of_code_point_def

section \<open>The secret vault\<close>

text \<open>
  \<open>encrypt\<close> and \<open>decrypt\<close> are \<open>encrypt_utf8\<close> and \<open>decrypt_utf8\<close> with Node's conversion
  between the string and its UTF-8 bytes around them.
\<close>

lemma encrypt_via_utf8:
  "encrypt P secret iv plaintext = encrypt_utf8 P secret iv (map_option utf8_encode plaintext)"
  by (cases plaintext) (simp_all add: utf8_encode_Nil)

lemma decrypt_via_utf8:
  "decrypt P secret stored = map_option utf8_decode (decrypt_utf8 P secret stored)"
  by (cases stored) (simp_all split: sum.splits list.splits)

lemma encrypt_then_decrypt:
  assumes "s \<noteq> []" and "opens_what_it_sealed P (sha256 P k) iv (utf8_encode s)"
  shows "\<exists>t. encrypt P (Some k) iv (Some s) = Inr (Some t)
            \<and> decrypt P (Some k) (Some t) = Some (utf8_decode (utf8_encode s))"
proof -
  obtain ct tag where seal: "gcm_seal P (sha256 P k) iv (utf8_encode s) = (ct, tag)"
    by (cases "gcm_seal P (sha256 P k) iv (utf8_encode s)")
  with assms(2) have opened: "gcm_open P (sha256 P k) iv tag ct = Some (utf8_encode s)"
    by (simp add: opens_what_it_sealed_def)
  let ?t = "b64encode iv @ '':'' @ b64encode tag @ '':'' @ b64encode ct"
  have enc: "encrypt P (Some k) iv (Some s) = Inr (Some ?t)"
    using assms(1) seal by simp
  have dec: "decrypt P (Some k) (Some ?t) = Some (utf8_decode (utf8_encode s))"
    using opened by (simp add: split_three colon_notin_b64encode b64decode_b64encode)
  from enc dec show ?thesis by blast
qed

text \<open>
  Claim C4, amended. With the master secret set and a cipher that opens what it sealed:
  for every non-empty string \<open>s\<close>, \<open>decrypt\<close> of what \<open>encrypt\<close> returned for \<open>s\<close> is \<open>s\<close>
  converted to UTF-8 and back, and that is \<open>s\<close> itself when \<open>s\<close> is well formed (every
  surrogate is one of a pair). \<open>encrypt\<close> of \<open>null\<close> and of the empty string is \<open>null\<close>,
  and \<open>decrypt\<close> of \<open>null\<close> is \<open>null\<close>, whatever the secret and the nonce.
\<close>

theorem decrypt_encrypt:
  assumes "s \<noteq> []" and "opens_what_it_sealed P (sha256 P k) iv (utf8_encode s)"
  shows "(\<exists>t. encrypt P (Some k) iv (Some s) = Inr (Some t)
            \<and> decrypt P (Some k) (Some t) = Some (utf8_decode (utf8_encode s))
            \<and> (well_formed s \<longrightarrow> decrypt P (Some k) (Some t) = Some s))
         \<and> encrypt P secret iv' None = Inr None
         \<and> encrypt P secret iv' (Some []) = Inr None
         \<and> decrypt P secret None = None"
proof -
  from encrypt_then_decrypt [OF assms] obtain t where
    t: "encrypt P (Some k) iv (Some s) = Inr (Some t)"
      "decrypt P (Some k) (Some t) = Some (utf8_decode (utf8_encode s))"
    by blast
  then have "well_formed s \<longrightarrow> decrypt P (Some k) (Some t) = Some s"
    by (simp add: utf8_decode_encode del: encrypt.simps decrypt.simps)
  with t have "\<exists>t. encrypt P (Some k) iv (Some s) = Inr (Some t)
            \<and> decrypt P (Some k) (Some t) = Some (utf8_decode (utf8_encode s))
            \<and> (well_formed s \<longrightarrow> decrypt P (Some k) (Some t) = Some s)"
    by blast
  then show ?thesis by simp
qed

text \<open>
  The round trip of \<open>a\<close>, \<open>e\<close> with an acute accent and one emoji (a surrogate pair) under
  the demo cipher.
\<close>

theorem decrypt_encrypt_witness:
  "(\<exists>t. encrypt demo_crypto (Some ''k'') ''0123456789ab'' (Some [0x61, 0xE9, 0xD83D, 0xDE00]) =
          Inr (Some t)
        \<and> decrypt demo_crypto (Some ''k'') (Some t) = Some [0x61, 0xE9, 0xD83D, 0xDE00])
   \<and> encrypt demo_crypto None [] None = Inr None
   \<and> encrypt demo_crypto None [] (Some []) = Inr None
   \<and> decrypt demo_crypto None None = None"
proof -
  let ?s = "[0x61, 0xE9, 0xD83D, 0xDE00] :: jsstring"
  have h: "?s \<noteq> []"
    "opens_what_it_sealed demo_crypto (sha256 demo_crypto ''k'') ''0123456789ab'' (utf8_encode ?s)"
    by (simp_all add: opens_what_it_sealed_def demo_crypto_def)
  have w: "well_formed ?s"
    by (simp add: is_high_surrogate_def is_low_surrogate_def)
  from decrypt_encrypt [OF h, of None "[]"] w show ?thesis
    by blast
qed

text \<open>
  Claim C4 as stated fails for a string that is not well formed. The \<open>'utf8'\<close> conversion
  of \<open>cipher.update\<close> writes the lone surrogate U+D800 as the bytes EF BF BD of U+FFFD,
  and U+FFFD is what \<open>decrypt\<close> returns.
\<close>

theorem lone_surrogate_counterexample:
  "encrypt demo_crypto (Some ''k'') ''0123456789ab'' (Some [0xD800]) =
     Inr (Some ''MDEyMzQ1Njc4OWFi:pqampqampqampqampqampg==:vb/v'')
   \<and> decrypt demo_crypto (Some ''k'') (Some ''MDEyMzQ1Njc4OWFi:pqampqampqampqampqampg==:vb/v'') =
     Some [0xFFFD]
   \<and> [0xFFFD] \<noteq> [0xD800 :: 16 word]"
  by (simp add: demo_crypto_def demo_tag_def b64_eval utf8_eval)

text \<open>The same under every secret, nonce and cipher that opens what it sealed.\<close>

lemma lone_surrogate_replaced:
  assumes "opens_what_it_sealed P (sha256 P k) iv (utf8_encode [0xD800])"
  shows "\<exists>t. encrypt P (Some k) iv (Some [0xD800]) = Inr (Some t)
            \<and> decrypt P (Some k) (Some t) = Some [0xFFFD]"
proof -
  have "utf8_decode (utf8_encode [0xD800]) = [0xFFFD]"
    by (simp add: utf8_eval char_of_eq_iff)
  with encrypt_then_decrypt [OF _ assms] show ?thesis
    by (simp del: encrypt.simps decrypt.simps utf8_decode.simps utf8_encode.simps)
qed

section \<open>The demo cipher\<close>

lemma decrypt_token:
  assumes "gcm_open P (sha256 P k) iv tag ct = Some s"
  shows "decrypt_utf8 P (Some k)
           (Some (b64encode iv @ CHR '':'' # b64encode tag @ CHR '':'' # b64encode ct)) = Some s"
  using assms by (simp add: split_three colon_notin_b64encode b64decode_b64encode)

lemma decrypt_sealed: "s \<noteq> [] \<Longrightarrow> decrypt_utf8 demo_crypto (Some ''k'') (sealed s) = Some s"
proof -
  assume s: "s \<noteq> []"
  let ?iv = "''0123456789ab''"
  have "gcm_open demo_crypto (sha256 demo_crypto ''k'') ?iv (demo_tag ''k'' ?iv (rev s)) (rev s) = Some s"
    by (simp add: demo_crypto_def)
  from decrypt_token [OF this]
  show ?thesis using s by (simp add: sealed_def demo_crypto_def del: b64encode.simps decrypt_utf8.simps)
qed

lemma truthy_sealed: "s \<noteq> [] \<Longrightarrow> truthy (sealed s)"
  by (simp add: sealed_def demo_crypto_def del: b64encode.simps)

lemma sealed_not_None: "s \<noteq> [] \<Longrightarrow> sealed s \<noteq> None"
  by (simp add: sealed_def demo_crypto_def del: b64encode.simps)

section \<open>The OAuth callback and its state\<close>

text \<open>
  Claim C6. Every run of the callback handler leaves the session's state slot empty.
  When the provider did not report a denial and the returned state is absent or differs
  from the stored one, the run changes nothing else and redirects with
  \<open>invalid_state\<close>. A second callback on the session the first one left, whatever
  state it carries, is answered \<open>invalid_state\<close> as well unless it reports a denial.
\<close>

theorem callback_state_consumed:
  "ebayOAuthState (fst (snd (callback P e x q s w))) = None
   \<and> (error q \<noteq> Some ''access_denied'' \<and> error q \<noteq> Some ''consent_declined''
        \<and> (state q = None \<or> state q \<noteq> ebayOAuthState s)
      \<longrightarrow> callback P e x q s w =
            (w, s\<lparr>ebayOAuthState := None\<rparr>,
             Redirect ''/config.html?ebay_oauth=error&reason=invalid_state''))
   \<and> (error q' \<noteq> Some ''access_denied'' \<and> error q' \<noteq> Some ''consent_declined''
      \<longrightarrow> snd (snd (callback P e' x' q' (fst (snd (callback P e x q s w))) w')) =
            Redirect ''/config.html?ebay_oauth=error&reason=invalid_state'')"
proof (intro conjI impI)
  show cleared: "ebayOAuthState (fst (snd (callback P e x q s w))) = None"
    by (simp add: callback_def Let_def split: prod.splits)
  show "callback P e x q s w =
          (w, s\<lparr>ebayOAuthState := None\<rparr>,
           Redirect ''/config.html?ebay_oauth=error&reason=invalid_state'')"
    if "error q \<noteq> Some ''access_denied'' \<and> error q \<noteq> Some ''consent_declined''
        \<and> (state q = None \<or> state q \<noteq> ebayOAuthState s)"
  proof (cases "ebayOAuthState s")
    case None
    with that show ?thesis by (simp add: callback_def Let_def)
  next
    case (Some saved)
    with that show ?thesis by (auto simp: callback_def Let_def)
  qed
  show "snd (snd (callback P e' x' q' (fst (snd (callback P e x q s w))) w')) =
          Redirect ''/config.html?ebay_oauth=error&reason=invalid_state''"
    if "error q' \<noteq> Some ''access_denied'' \<and> error q' \<noteq> Some ''consent_declined''"
  proof -
    let ?s = "fst (snd (callback P e x q s w))"
    have "callback P e' x' q' ?s w' =
            (w', ?s\<lparr>ebayOAuthState := None\<rparr>,
             Redirect ''/config.html?ebay_oauth=error&reason=invalid_state'')"
      using that cleared by (simp add: callback_def [of P e' x' q'] Let_def)
    then show ?thesis by simp
  qed
qed

theorem callback_state_consumed_witness:
  "callback demo_crypto demo_env (demo_io 5)
      \<lparr>code = Some ''c0de'', state = Some ''0000'', error = None\<rparr> demo_session demo_world =
     (demo_world, demo_session\<lparr>ebayOAuthState := None\<rparr>,
      Redirect ''/config.html?ebay_oauth=error&reason=invalid_state'')
   \<and> snd (snd (callback demo_crypto demo_env (demo_io 9)
      \<lparr>code = Some ''c0de'', state = Some ''5f2a'', error = None\<rparr>
      (fst (snd (callback demo_crypto demo_env (demo_io 5)
         \<lparr>code = Some ''c0de'', state = Some ''0000'', error = None\<rparr> demo_session demo_world)))
      demo_world)) =
     Redirect ''/config.html?ebay_oauth=error&reason=invalid_state''"
proof -
  let ?q = "\<lparr>code = Some ''c0de'', state = Some ''0000'', error = None\<rparr>"
  let ?q' = "\<lparr>code = Some ''c0de'', state = Some ''5f2a'', error = None\<rparr>"
  note t = callback_state_consumed [where P = demo_crypto and e = demo_env and x = "demo_io 5"
      and q = ?q and s = demo_session and w = demo_world and e' = demo_env and x' = "demo_io 9"
      and q' = ?q' and w' = demo_world]
  have h1: "error ?q \<noteq> Some ''access_denied'' \<and> error ?q \<noteq> Some ''consent_declined''
        \<and> (state ?q = None \<or> state ?q \<noteq> ebayOAuthState demo_session)"
    by (simp add: demo_session_def)
  have h2: "error ?q' \<noteq> Some ''access_denied'' \<and> error ?q' \<noteq> Some ''consent_declined''"
    by simp
  from t h1 h2 show ?thesis by blast
qed

section \<open>Stale sessions\<close>

text \<open>
  Claim C9. When the session's user id matches no row of the table and the lookup does
  not throw, both versions of \<open>loadUserConfig\<close> destroy the session and answer 401
  \<open>User not found\<close>; no configuration is attached and \<open>next()\<close> is not called.
\<close>

theorem stale_session_rejected:
  assumes "userId s = Some i" and "i \<noteq> 0"
    and "\<forall>u \<in> set (users w). user_id u \<noteq> i"
    and "\<not> select_fails x"
  shows "loadUserConfig P e x w (Some s) = (w, None, Stop (Json_error 401 ''User not found''))
         \<and> loadUserConfig_manual P e x (users w) (Some s) =
           (None, Stop (Json_error 401 ''User not found''))"
proof -
  from assms(3) have "find (\<lambda>u. user_id u = i) (users w) = None"
    by (simp add: find_None_iff)
  with assms(1) have "select_with_owner (users w) (userId s) = None"
    by (simp add: select_with_owner_def)
  with assms(1,2,4) show ?thesis by simp
qed

theorem stale_session_rejected_witness:
  "loadUserConfig demo_crypto demo_env (demo_io 5) demo_world
       (Some (demo_session\<lparr>userId := Some 7\<rparr>)) =
     (demo_world, None, Stop (Json_error 401 ''User not found''))
   \<and> loadUserConfig_manual demo_crypto demo_env (demo_io 5) (users demo_world)
       (Some (demo_session\<lparr>userId := Some 7\<rparr>)) =
     (None, Stop (Json_error 401 ''User not found''))"
proof -
  have "userId (demo_session\<lparr>userId := Some 7\<rparr>) = Some 7" "(7::nat) \<noteq> 0"
    "\<forall>u \<in> set (users demo_world). user_id u \<noteq> 7" "\<not> select_fails (demo_io 5)"
    by (simp_all add: demo_world_def demo_owner_def demo_sub_def demo_io_def)
  from stale_session_rejected [OF this] show ?thesis .
qed

section \<open>The masked preview\<close>

lemma slice_covers:
  assumes "length p \<le> 10"
  shows "set p \<subseteq> set (take 6 p @ ''...'' @ drop (length p - 4) p)"
proof -
  have "set p = set (take 6 p) \<union> set (drop 6 p)"
    by (metis append_take_drop_id set_append)
  moreover have "set (drop 6 p) \<subseteq> set (drop (length p - 4) p)"
    using assms by (intro set_drop_subset_set_drop) simp
  ultimately show ?thesis by auto
qed

text \<open>
  Claim C10. For a key that decrypts to a non-empty plaintext the preview is the first six
  characters, three dots and the last four characters; for a plaintext of at most ten
  characters every character of the secret occurs in the preview.
\<close>

theorem mask_preview:
  assumes "decrypt_utf8 P (SESSION_SECRET e) enc = Some plain" and "plain \<noteq> []"
  shows "mask P e enc =
           \<lparr>is_set = True, preview = take 6 plain @ ''...'' @ drop (length plain - 4) plain\<rparr>
         \<and> (length plain \<le> 10 \<longrightarrow> set plain \<subseteq> set (preview (mask P e enc)))"
proof -
  from assms(1) have "truthy enc"
    by (cases enc) (auto split: if_splits)
  with assms have m: "mask P e enc =
      \<lparr>is_set = True, preview = take 6 plain @ ''...'' @ drop (length plain - 4) plain\<rparr>"
    by (simp add: mask_def del: decrypt_utf8.simps)
  then show ?thesis using slice_covers [of plain] by simp
qed

theorem mask_preview_witness:
  "mask demo_crypto demo_env (sealed ''manual-id'') = \<lparr>is_set = True, preview = ''manual...l-id''\<rparr>
   \<and> set ''manual-id'' \<subseteq> set (preview (mask demo_crypto demo_env (sealed ''manual-id'')))"
proof -
  have "decrypt_utf8 demo_crypto (SESSION_SECRET demo_env) (sealed ''manual-id'') = Some ''manual-id''"
    using decrypt_sealed [of "''manual-id''"] by (simp add: demo_env_def del: decrypt_utf8.simps)
  from mask_preview [OF this] show ?thesis by simp
qed

section \<open>The invariant of the OAuth columns\<close>

lemma update_where_consistent:
  assumes "list_all oauth_consistent rows" and "\<And>u. oauth_consistent (f u)"
  shows "list_all oauth_consistent (update_where a f rows)"
  using assms by (cases a) (auto simp: list_all_iff)

lemma persist_refreshed_consistent:
  assumes "list_all oauth_consistent (users w)"
  shows "list_all oauth_consistent (users (snd (persist_refreshed P e x d acct w)))"
  using assms
  by (auto simp: persist_refreshed_def Let_def oauth_consistent_def
      intro!: update_where_consistent split: sum.splits simp del: encrypt_utf8.simps)

lemma refresh_consistent:
  assumes "list_all oauth_consistent (users w)"
  shows "list_all oauth_consistent (users (snd (refreshEbayOAuthToken P e x rt acct w)))"
  using assms persist_refreshed_consistent [of "w\<lparr>calls := cs\<rparr>" for cs]
  by (auto simp: refreshEbayOAuthToken_def Let_def split: fetched.splits option.splits)

lemma resolve_consistent:
  assumes "list_all oauth_consistent (users w)"
  shows "list_all oauth_consistent (users (snd (resolve P e x row owner w)))"
proof -
  have "list_all oauth_consistent (users w')"
    if "refreshEbayOAuthToken P e x rt acct w = (r, w')" for rt acct r w'
    using refresh_consistent [OF assms, of P e x rt acct] that by simp
  then show ?thesis
    using assms by (auto simp: resolve_def Let_def split: prod.splits sum.splits simp del: decrypt_utf8.simps)
qed

lemma store_tokens_consistent:
  assumes "list_all oauth_consistent (users w)" and "store_tokens P e x d name acct w = Inr w'"
  shows "list_all oauth_consistent (users w')"
  using assms
  by (auto simp: store_tokens_def Let_def oauth_consistent_def
      intro!: update_where_consistent split: sum.splits if_splits simp del: encrypt_utf8.simps)

lemma exchange_consistent:
  assumes "list_all oauth_consistent (users w)"
  shows "list_all oauth_consistent (users (fst (exchange P e x c s w)))"
proof -
  have "list_all oauth_consistent (users w')"
    if "store_tokens P e x d name acct (w\<lparr>calls := cs\<rparr>) = Inr w'" for d name acct cs w'
    using store_tokens_consistent [OF _ that] assms by simp
  then show ?thesis
    using assms
    by (auto simp: exchange_def Let_def split: fetched.splits option.splits sum.splits)
qed

lemma callback_consistent:
  assumes "list_all oauth_consistent (users w)"
  shows "list_all oauth_consistent (users (fst (callback P e x q s w)))"
proof -
  have "list_all oauth_consistent (users w')" if "exchange P e x c s' w = (w', r)" for c s' w' r
    using exchange_consistent [OF assms, of P e x c s'] that by simp
  then show ?thesis
    using assms by (auto simp: callback_def Let_def split: prod.splits)
qed

lemma disconnect_consistent:
  assumes "list_all oauth_consistent (users w)"
  shows "list_all oauth_consistent (users (fst (disconnect x s w)))"
  using assms
  by (auto simp: disconnect_def oauth_consistent_def intro!: update_where_consistent)

text \<open>
  Claim C8. If every row satisfies the invariant (a stored access token has an expiry),
  every row satisfies it after the callback, after \<open>refreshEbayOAuthToken\<close> (alone or
  inside \<open>resolve\<close>) and after disconnect, whatever the provider answered and whether or
  not the update ran.
\<close>

theorem oauth_invariant_preserved:
  assumes "list_all oauth_consistent (users w)"
  shows "list_all oauth_consistent (users (fst (callback P e x q s w)))
       \<and> list_all oauth_consistent (users (snd (refreshEbayOAuthToken P e x rt acct w)))
       \<and> list_all oauth_consistent (users (snd (resolve P e x row owner w)))
       \<and> list_all oauth_consistent (users (fst (disconnect x s w)))"
  using assms
  by (simp add: callback_consistent refresh_consistent resolve_consistent disconnect_consistent)


text \<open>
  The demo account satisfies the invariant, so the theorem applies to it.
\<close>

theorem oauth_invariant_preserved_witness:
  "list_all oauth_consistent (users demo_world)
   \<and> list_all oauth_consistent (users (fst (callback demo_crypto demo_env (demo_io 5)
         \<lparr>code = Some ''c0de'', state = Some ''5f2a'', error = None\<rparr> demo_session demo_world)))
   \<and> list_all oauth_consistent (users (snd (refreshEbayOAuthToken demo_crypto demo_env
         (demo_io 800000) (Some ''old-refresh'') (Some 1) demo_world)))
   \<and> list_all oauth_consistent (users (snd (resolve demo_crypto demo_env (demo_io 800000)
         demo_sub demo_owner demo_world)))
   \<and> list_all oauth_consistent (users (fst (disconnect (demo_io 5) demo_session demo_world)))"
proof -
  have h: "list_all oauth_consistent (users demo_world)"
    by (simp add: demo_world_def demo_owner_def demo_sub_def oauth_consistent_def)
  from h oauth_invariant_preserved [OF h] show ?thesis by blast
qed

section \<open>A refresh that fails\<close>

lemma refresh_failed_result:
  assumes "refresh_failed (token_response x)"
  shows "\<exists>err cs. refreshEbayOAuthToken P e x rt acct w = (Inr None, w)
           \<or> refreshEbayOAuthToken P e x rt acct w = (Inl err, w\<lparr>calls := cs\<rparr>)"
  using assms
  by (cases "token_response x" rule: refresh_failed.cases)
     (auto simp: refreshEbayOAuthToken_def Let_def)

text \<open>
  Claim C7. For an owner row with an access token past the buffer and a refresh token,
  when the refresh call fails (the fetch rejects, the body is not JSON, the status is not
  2xx or the access token is missing), \<open>resolve\<close> returns the bundle with the OAuth
  state disconnected and the manual keys decrypted from the same row, the table is
  unchanged, and \<open>loadUserConfig\<close> calls \<open>next()\<close> with that bundle instead of answering
  an error.
\<close>

theorem failed_refresh_falls_back:
  assumes "truthy (ebay_oauth_access_token owner)"
    and "isExpired x (ebay_oauth_token_expiry owner)"
    and "truthy (ebay_oauth_refresh_token owner)"
    and "refresh_failed (token_response x)"
  shows "fst (resolve P e x row owner w) =
           \<lparr>ebayToken = or_empty (decrypt_utf8 P (SESSION_SECRET e) (ebay_token owner)),
            ebayClientId = or_empty (decrypt_utf8 P (SESSION_SECRET e) (ebay_client_id owner)),
            ebayClientSecret = or_empty (decrypt_utf8 P (SESSION_SECRET e) (ebay_client_secret owner)),
            ebayOAuthToken = None, ebayOAuthConnected = False,
            ebayOAuthUsername = or_null (ebay_oauth_username owner)\<rparr>
         \<and> users (snd (resolve P e x row owner w)) = users w
         \<and> (userId s = Some i \<and> i \<noteq> 0 \<and> \<not> select_fails x
              \<and> select_with_owner (users w) (Some i) = Some (row, owner)
            \<longrightarrow> snd (snd (loadUserConfig P e x w (Some s))) =
                  Next (Some (fst (resolve P e x row owner w))))"
proof -
  obtain r w' where r: "refreshEbayOAuthToken P e x
      (decrypt_utf8 P (SESSION_SECRET e) (ebay_oauth_refresh_token owner)) (account_id row) w = (r, w')"
    by (cases "refreshEbayOAuthToken P e x
      (decrypt_utf8 P (SESSION_SECRET e) (ebay_oauth_refresh_token owner)) (account_id row) w")
  with refresh_failed_result [OF assms(4), of P e
      "decrypt_utf8 P (SESSION_SECRET e) (ebay_oauth_refresh_token owner)" "account_id row" w]
  have "(r = Inr None \<or> (\<exists>err. r = Inl err)) \<and> users w' = users w"
    by auto
  with r assms(1-3) have "resolve P e x row owner w = (base_config P e owner, w')"
    and "users w' = users w"
    by (auto simp: resolve_def Let_def simp del: decrypt_utf8.simps)
  then show ?thesis
    by (auto simp: base_config_def split: prod.splits simp del: decrypt_utf8.simps)
qed

text \<open>
  The provider answers with a non-2xx status and no JSON body.
\<close>

theorem failed_refresh_falls_back_witness:
  "fst (resolve demo_crypto demo_env ((demo_io 800000)\<lparr>token_response := Response False None\<rparr>)
          demo_owner demo_owner demo_world) =
     \<lparr>ebayToken = ''manual-token'', ebayClientId = ''manual-id'',
      ebayClientSecret = ''manual-secret'', ebayOAuthToken = None, ebayOAuthConnected = False,
      ebayOAuthUsername = Some ''seller''\<rparr>
   \<and> users (snd (resolve demo_crypto demo_env
          ((demo_io 800000)\<lparr>token_response := Response False None\<rparr>)
          demo_owner demo_owner demo_world)) = users demo_world
   \<and> snd (snd (loadUserConfig demo_crypto demo_env
          ((demo_io 800000)\<lparr>token_response := Response False None\<rparr>)
          demo_world (Some demo_session))) =
     Next (Some \<lparr>ebayToken = ''manual-token'', ebayClientId = ''manual-id'',
      ebayClientSecret = ''manual-secret'', ebayOAuthToken = None, ebayOAuthConnected = False,
      ebayOAuthUsername = Some ''seller''\<rparr>)"
proof -
  let ?x = "(demo_io 800000)\<lparr>token_response := Response False None\<rparr>"
  have h: "truthy (ebay_oauth_access_token demo_owner)"
    "isExpired ?x (ebay_oauth_token_expiry demo_owner)"
    "truthy (ebay_oauth_refresh_token demo_owner)"
    "refresh_failed (token_response ?x)"
    by (simp_all add: demo_owner_def truthy_sealed isExpired_def EXPIRY_BUFFER_MS_def demo_io_def)
  have g: "userId demo_session = Some 1 \<and> (1::nat) \<noteq> 0 \<and> \<not> select_fails ?x
      \<and> select_with_owner (users demo_world) (Some 1) = Some (demo_owner, demo_owner)"
    by (simp add: demo_session_def demo_io_def demo_world_def select_with_owner_def
        demo_owner_def)
  have m: "or_empty (decrypt_utf8 demo_crypto (SESSION_SECRET demo_env) (ebay_token demo_owner)) = ''manual-token''"
    "or_empty (decrypt_utf8 demo_crypto (SESSION_SECRET demo_env) (ebay_client_id demo_owner)) = ''manual-id''"
    "or_empty (decrypt_utf8 demo_crypto (SESSION_SECRET demo_env) (ebay_client_secret demo_owner)) = ''manual-secret''"
    "or_null (ebay_oauth_username demo_owner) = Some ''seller''"
    by (simp_all add: demo_owner_def demo_env_def decrypt_sealed or_null_def del: decrypt_utf8.simps)
  from failed_refresh_falls_back [OF h, of demo_crypto demo_env demo_owner demo_world demo_session 1] g
  show ?thesis unfolding m by (simp del: decrypt_utf8.simps)
qed

section \<open>Refresh at and past the buffer\<close>

lemma decrypt_Some_secret: "decrypt_utf8 P secret v = Some p \<Longrightarrow> \<exists>k. secret = Some k"
  by (cases secret; cases v) (auto split: if_splits)

lemma decrypt_Some_truthy: "decrypt_utf8 P secret v = Some p \<Longrightarrow> truthy v"
  by (cases v) (auto split: if_splits)

lemma encrypt_Some:
  "a \<noteq> [] \<Longrightarrow> \<exists>t. encrypt_utf8 P (Some k) iv (Some a) = Inr (Some t)"
  by (simp split: prod.splits)

lemma encrypt_truthy:
  "truthy v \<Longrightarrow> \<exists>t. encrypt_utf8 P (Some k) iv v = Inr (Some t)"
  by (cases v) (simp_all split: prod.splits)

lemma refresh_steps:
  assumes "truthy (ebay_oauth_access_token owner)"
    and "isExpired x (ebay_oauth_token_expiry owner)"
    and "decrypt_utf8 P (SESSION_SECRET e) (ebay_oauth_refresh_token owner) = Some rt" and "rt \<noteq> []"
    and "EBAY_APP_CLIENT_ID e = Some cid" and "cid \<noteq> []"
    and "EBAY_APP_CLIENT_SECRET e = Some csec" and "csec \<noteq> []"
    and "token_response x = Response True (Some d)"
    and "access_token d = Some a" and "a \<noteq> []"
    and "\<not> update_fails x"
  shows "\<exists>encA encR.
           encrypt_utf8 P (SESSION_SECRET e) (iv1 x) (Some a) = Inr (Some encA)
         \<and> (truthy (refresh_token d)
              \<longrightarrow> encrypt_utf8 P (SESSION_SECRET e) (iv2 x) (refresh_token d) = Inr (Some encR))
         \<and> calls (snd (resolve P e x row owner w)) =
             calls w @ [Refresh_call (basic_credentials cid csec) rt]
         \<and> users (snd (resolve P e x row owner w)) =
             update_where (account_id row)
               (\<lambda>u. u\<lparr>ebay_oauth_access_token := Some encA,
                       ebay_oauth_token_expiry := Some (now_later x + or_7200 (expires_in d) * 1000),
                       ebay_oauth_refresh_token :=
                         (if truthy (refresh_token d) then Some encR
                          else ebay_oauth_refresh_token u),
                       updated_at := db_now x\<rparr>) (users w)
         \<and> ebayOAuthToken (fst (resolve P e x row owner w)) = Some a
         \<and> ebayOAuthConnected (fst (resolve P e x row owner w))"
proof -
  from assms(3) obtain k where k: "SESSION_SECRET e = Some k"
    using decrypt_Some_secret by blast
  from assms(3) have stored: "truthy (ebay_oauth_refresh_token owner)"
    by (rule decrypt_Some_truthy)
  obtain encA where encA: "encrypt_utf8 P (Some k) (iv1 x) (Some a) = Inr (Some encA)"
    using encrypt_Some [OF assms(11)] by blast
  let ?w1 = "w\<lparr>calls := calls w @ [Refresh_call (basic_credentials cid csec) rt]\<rparr>"
  have refresh: "refreshEbayOAuthToken P e x (Some rt) (account_id row) w =
      persist_refreshed P e x d (account_id row) ?w1"
    using assms(4-11) by (simp add: refreshEbayOAuthToken_def Let_def)
  show ?thesis
  proof (cases "truthy (refresh_token d)")
    case True
    then obtain encR where encR: "encrypt_utf8 P (Some k) (iv2 x) (refresh_token d) = Inr (Some encR)"
      using encrypt_truthy by blast
    have "persist_refreshed P e x d (account_id row) ?w1 =
        (Inr (Some a), ?w1\<lparr>users := update_where (account_id row)
               (\<lambda>u. u\<lparr>ebay_oauth_access_token := Some encA,
                       ebay_oauth_token_expiry := Some (now_later x + or_7200 (expires_in d) * 1000),
                       ebay_oauth_refresh_token := Some encR,
                       updated_at := db_now x\<rparr>) (users w)\<rparr>)"
      using True k encA encR assms(10,12)
      by (simp add: persist_refreshed_def Let_def del: encrypt_utf8.simps)
    with refresh assms(1-3,11) stored True k encA encR show ?thesis
      by (intro exI [of _ encA] exI [of _ encR])
         (simp add: resolve_def Let_def del: encrypt_utf8.simps decrypt_utf8.simps)
  next
    case False
    have "persist_refreshed P e x d (account_id row) ?w1 =
        (Inr (Some a), ?w1\<lparr>users := update_where (account_id row)
               (\<lambda>u. u\<lparr>ebay_oauth_access_token := Some encA,
                       ebay_oauth_token_expiry := Some (now_later x + or_7200 (expires_in d) * 1000),
                       updated_at := db_now x\<rparr>) (users w)\<rparr>)"
      using False k encA assms(10,12)
      by (simp add: persist_refreshed_def Let_def del: encrypt_utf8.simps)
    with refresh assms(1-3,11) stored False k encA show ?thesis
      by (intro exI [of _ encA] exI [of _ "[]"])
         (simp add: resolve_def Let_def del: encrypt_utf8.simps decrypt_utf8.simps)
  qed
qed


lemma at_boundary:
  assumes "truthy (ebay_oauth_access_token owner)
       \<and> ebay_oauth_token_expiry owner = Some t \<and> now x = t - EXPIRY_BUFFER_MS"
  shows "resolve P e x row owner w =
          (\<lparr>ebayToken = or_empty (decrypt_utf8 P (SESSION_SECRET e) (ebay_token owner)),
            ebayClientId = or_empty (decrypt_utf8 P (SESSION_SECRET e) (ebay_client_id owner)),
            ebayClientSecret =
              or_empty (decrypt_utf8 P (SESSION_SECRET e) (ebay_client_secret owner)),
            ebayOAuthToken = decrypt_utf8 P (SESSION_SECRET e) (ebay_oauth_access_token owner),
            ebayOAuthConnected = True,
            ebayOAuthUsername = or_null (ebay_oauth_username owner)\<rparr>, w)"
proof -
  from assms have "\<not> isExpired x (ebay_oauth_token_expiry owner)"
    by (simp add: isExpired_def)
  with assms show ?thesis
    by (simp add: resolve_def base_config_def Let_def del: decrypt_utf8.simps)
qed

text \<open>
  Claim C3, amended. For an owner row whose access token is past the buffer
  (\<open>now > expiry - EXPIRY_BUFFER_MS\<close>, or no expiry stored) and whose refresh token
  decrypts to a non-empty string, with the client id and secret configured, a 2xx answer
  carrying an access token and an update that does not throw: \<open>resolve\<close> makes exactly
  one call, the refresh with the decrypted refresh token; the owner's row gets the
  encrypted new access token and the new expiry (and the encrypted new refresh token when
  the answer has one, the old one staying otherwise); the bundle carries the new token.
  For every owner row with an access token, exactly at the boundary
  (\<open>now = expiry - EXPIRY_BUFFER_MS\<close>) \<open>resolve\<close> makes no call and writes nothing, and the
  bundle is connected with the stored access token, decrypted.
\<close>

theorem refresh_past_buffer:
  "(truthy (ebay_oauth_access_token owner)
      \<and> isExpired x (ebay_oauth_token_expiry owner)
      \<and> decrypt_utf8 P (SESSION_SECRET e) (ebay_oauth_refresh_token owner) = Some rt
      \<and> rt \<noteq> []
      \<and> EBAY_APP_CLIENT_ID e = Some cid
      \<and> cid \<noteq> []
      \<and> EBAY_APP_CLIENT_SECRET e = Some csec
      \<and> csec \<noteq> []
      \<and> token_response x = Response True (Some d)
      \<and> access_token d = Some a
      \<and> a \<noteq> []
      \<and> \<not> update_fails x
    \<longrightarrow> (\<exists>encA encR.
           encrypt_utf8 P (SESSION_SECRET e) (iv1 x) (Some a) = Inr (Some encA)
         \<and> (truthy (refresh_token d)
              \<longrightarrow> encrypt_utf8 P (SESSION_SECRET e) (iv2 x) (refresh_token d) = Inr (Some encR))
         \<and> calls (snd (resolve P e x row owner w)) =
             calls w @ [Refresh_call (basic_credentials cid csec) rt]
         \<and> users (snd (resolve P e x row owner w)) =
             update_where (account_id row)
               (\<lambda>u. u\<lparr>ebay_oauth_access_token := Some encA,
                       ebay_oauth_token_expiry := Some (now_later x + or_7200 (expires_in d) * 1000),
                       ebay_oauth_refresh_token :=
                         (if truthy (refresh_token d) then Some encR
                          else ebay_oauth_refresh_token u),
                       updated_at := db_now x\<rparr>) (users w)
         \<and> ebayOAuthToken (fst (resolve P e x row owner w)) = Some a
         \<and> ebayOAuthConnected (fst (resolve P e x row owner w))))
   \<and> (truthy (ebay_oauth_access_token owner)
       \<and> ebay_oauth_token_expiry owner = Some t \<and> now x = t - EXPIRY_BUFFER_MS
    \<longrightarrow> resolve P e x row owner w =
          (\<lparr>ebayToken = or_empty (decrypt_utf8 P (SESSION_SECRET e) (ebay_token owner)),
            ebayClientId = or_empty (decrypt_utf8 P (SESSION_SECRET e) (ebay_client_id owner)),
            ebayClientSecret =
              or_empty (decrypt_utf8 P (SESSION_SECRET e) (ebay_client_secret owner)),
            ebayOAuthToken = decrypt_utf8 P (SESSION_SECRET e) (ebay_oauth_access_token owner),
            ebayOAuthConnected = True,
            ebayOAuthUsername = or_null (ebay_oauth_username owner)\<rparr>, w))"
proof (intro conjI impI)
  assume h: \<open>truthy (ebay_oauth_access_token owner)
      \<and> isExpired x (ebay_oauth_token_expiry owner)
      \<and> decrypt_utf8 P (SESSION_SECRET e) (ebay_oauth_refresh_token owner) = Some rt
      \<and> rt \<noteq> []
      \<and> EBAY_APP_CLIENT_ID e = Some cid
      \<and> cid \<noteq> []
      \<and> EBAY_APP_CLIENT_SECRET e = Some csec
      \<and> csec \<noteq> []
      \<and> token_response x = Response True (Some d)
      \<and> access_token d = Some a
      \<and> a \<noteq> []
      \<and> \<not> update_fails x\<close>
  then show \<open>\<exists>encA encR.
           encrypt_utf8 P (SESSION_SECRET e) (iv1 x) (Some a) = Inr (Some encA)
         \<and> (truthy (refresh_token d)
              \<longrightarrow> encrypt_utf8 P (SESSION_SECRET e) (iv2 x) (refresh_token d) = Inr (Some encR))
         \<and> calls (snd (resolve P e x row owner w)) =
             calls w @ [Refresh_call (basic_credentials cid csec) rt]
         \<and> users (snd (resolve P e x row owner w)) =
             update_where (account_id row)
               (\<lambda>u. u\<lparr>ebay_oauth_access_token := Some encA,
                       ebay_oauth_token_expiry := Some (now_later x + or_7200 (expires_in d) * 1000),
                       ebay_oauth_refresh_token :=
                         (if truthy (refresh_token d) then Some encR
                          else ebay_oauth_refresh_token u),
                       updated_at := db_now x\<rparr>) (users w)
         \<and> ebayOAuthToken (fst (resolve P e x row owner w)) = Some a
         \<and> ebayOAuthConnected (fst (resolve P e x row owner w))\<close>
    by (intro refresh_steps) simp_all
next
  assume "truthy (ebay_oauth_access_token owner)
       \<and> ebay_oauth_token_expiry owner = Some t \<and> now x = t - EXPIRY_BUFFER_MS"
  then show "resolve P e x row owner w =
          (\<lparr>ebayToken = or_empty (decrypt_utf8 P (SESSION_SECRET e) (ebay_token owner)),
            ebayClientId = or_empty (decrypt_utf8 P (SESSION_SECRET e) (ebay_client_id owner)),
            ebayClientSecret =
              or_empty (decrypt_utf8 P (SESSION_SECRET e) (ebay_client_secret owner)),
            ebayOAuthToken = decrypt_utf8 P (SESSION_SECRET e) (ebay_oauth_access_token owner),
            ebayOAuthConnected = True,
            ebayOAuthUsername = or_null (ebay_oauth_username owner)\<rparr>, w)"
    by (rule at_boundary)
qed

text \<open>
  One millisecond past the boundary of the demo account: one refresh call. Exactly at
  the boundary: no call, and the old token.
\<close>

theorem refresh_past_buffer_witness:
  "calls (snd (resolve demo_crypto demo_env (demo_io 700001) demo_owner demo_owner demo_world)) =
     [Refresh_call (basic_credentials ''app'' ''cert'') ''old-refresh'']
   \<and> map ebay_oauth_token_expiry
        (users (snd (resolve demo_crypto demo_env (demo_io 700001) demo_owner demo_owner demo_world))) =
     [Some 4300041, None]
   \<and> map ebay_oauth_refresh_token
        (users (snd (resolve demo_crypto demo_env (demo_io 700001) demo_owner demo_owner demo_world))) =
     [sealed ''old-refresh'', None]
   \<and> ebayOAuthToken (fst (resolve demo_crypto demo_env (demo_io 700001) demo_owner demo_owner
        demo_world)) = Some ''new-access''
   \<and> ebayOAuthConnected (fst (resolve demo_crypto demo_env (demo_io 700001) demo_owner demo_owner
        demo_world))
   \<and> snd (resolve demo_crypto demo_env (demo_io 700000) demo_sub demo_owner demo_world) =
        demo_world
   \<and> ebayOAuthToken (fst (resolve demo_crypto demo_env (demo_io 700000) demo_sub demo_owner
        demo_world)) = Some ''old-access''"
proof -
  let ?x = "demo_io 700001"
  have h: "truthy (ebay_oauth_access_token demo_owner)
      \<and> isExpired ?x (ebay_oauth_token_expiry demo_owner)
      \<and> decrypt_utf8 demo_crypto (SESSION_SECRET demo_env) (ebay_oauth_refresh_token demo_owner) =
          Some ''old-refresh''
      \<and> ''old-refresh'' \<noteq> []
      \<and> EBAY_APP_CLIENT_ID demo_env = Some ''app'' \<and> ''app'' \<noteq> []
      \<and> EBAY_APP_CLIENT_SECRET demo_env = Some ''cert'' \<and> ''cert'' \<noteq> []
      \<and> token_response ?x = Response True (Some demo_token_data)
      \<and> access_token demo_token_data = Some ''new-access'' \<and> ''new-access'' \<noteq> []
      \<and> \<not> update_fails ?x"
    by (simp add: demo_owner_def truthy_sealed decrypt_sealed isExpired_def
        EXPIRY_BUFFER_MS_def demo_io_def demo_env_def demo_token_data_def del: decrypt_utf8.simps)
  from refresh_past_buffer [where P = demo_crypto and e = demo_env and x = ?x
      and owner = demo_owner and row = demo_owner and w = demo_world and rt = "''old-refresh''"
      and cid = "''app''" and csec = "''cert''" and d = demo_token_data and a = "''new-access''"] h
  obtain encA encR where
    c: "calls (snd (resolve demo_crypto demo_env ?x demo_owner demo_owner demo_world)) =
          calls demo_world @ [Refresh_call (basic_credentials ''app'' ''cert'') ''old-refresh'']"
    and u: "users (snd (resolve demo_crypto demo_env ?x demo_owner demo_owner demo_world)) =
          update_where (account_id demo_owner)
            (\<lambda>u. u\<lparr>ebay_oauth_access_token := Some encA,
                    ebay_oauth_token_expiry :=
                      Some (now_later ?x + or_7200 (expires_in demo_token_data) * 1000),
                    ebay_oauth_refresh_token :=
                      (if truthy (refresh_token demo_token_data) then Some encR
                       else ebay_oauth_refresh_token u),
                    updated_at := db_now ?x\<rparr>) (users demo_world)"
    and t: "ebayOAuthToken (fst (resolve demo_crypto demo_env ?x demo_owner demo_owner demo_world)) =
          Some ''new-access''"
      "ebayOAuthConnected (fst (resolve demo_crypto demo_env ?x demo_owner demo_owner demo_world))"
    by blast
  have b: "truthy (ebay_oauth_access_token demo_owner)
       \<and> ebay_oauth_token_expiry demo_owner = Some 1000000
       \<and> now (demo_io 700000) = 1000000 - EXPIRY_BUFFER_MS"
    by (simp add: demo_owner_def truthy_sealed EXPIRY_BUFFER_MS_def demo_io_def)
  from refresh_past_buffer [where P = demo_crypto and e = demo_env and x = "demo_io 700000"
      and owner = demo_owner and row = demo_sub and w = demo_world and t = 1000000] b
  have r: "resolve demo_crypto demo_env (demo_io 700000) demo_sub demo_owner demo_world =
      (\<lparr>ebayToken = or_empty (decrypt_utf8 demo_crypto (SESSION_SECRET demo_env) (ebay_token demo_owner)),
        ebayClientId =
          or_empty (decrypt_utf8 demo_crypto (SESSION_SECRET demo_env) (ebay_client_id demo_owner)),
        ebayClientSecret =
          or_empty (decrypt_utf8 demo_crypto (SESSION_SECRET demo_env) (ebay_client_secret demo_owner)),
        ebayOAuthToken =
          decrypt_utf8 demo_crypto (SESSION_SECRET demo_env) (ebay_oauth_access_token demo_owner),
        ebayOAuthConnected = True,
        ebayOAuthUsername = or_null (ebay_oauth_username demo_owner)\<rparr>, demo_world)"
    by blast
  have o: "decrypt_utf8 demo_crypto (SESSION_SECRET demo_env) (ebay_oauth_access_token demo_owner) =
      Some ''old-access''"
    by (simp add: demo_owner_def demo_env_def decrypt_sealed del: decrypt_utf8.simps)
  have "snd (resolve demo_crypto demo_env (demo_io 700000) demo_sub demo_owner demo_world) =
        demo_world"
    "ebayOAuthToken (fst (resolve demo_crypto demo_env (demo_io 700000) demo_sub demo_owner
        demo_world)) = Some ''old-access''"
    unfolding r by (simp_all add: o del: decrypt_utf8.simps)
  with c t show ?thesis unfolding u
    by (simp add: demo_world_def demo_owner_def demo_sub_def demo_io_def demo_token_data_def)
qed

text \<open>
  Claim C3 as stated fails exactly at the boundary. With the expiry at 1000000 and the
  clock at \<open>1000000 - EXPIRY_BUFFER_MS\<close> the test \<open>now > expiry - EXPIRY_BUFFER_MS\<close> is
  false: \<open>resolve\<close> makes no call, writes nothing and returns the stored access token,
  although the refresh token is valid and the provider would have answered.
\<close>

theorem refresh_at_boundary_counterexample:
  "ebay_oauth_token_expiry demo_owner = Some 1000000
   \<and> now (demo_io 700000) = 1000000 - EXPIRY_BUFFER_MS
   \<and> decrypt_utf8 demo_crypto (SESSION_SECRET demo_env) (ebay_oauth_refresh_token demo_owner) =
       Some ''old-refresh''
   \<and> token_response (demo_io 700000) = Response True (Some demo_token_data)
   \<and> access_token demo_token_data = Some ''new-access''
   \<and> calls demo_world = []
   \<and> resolve demo_crypto demo_env (demo_io 700000) demo_owner demo_owner demo_world =
       (\<lparr>ebayToken = ''manual-token'', ebayClientId = ''manual-id'',
         ebayClientSecret = ''manual-secret'', ebayOAuthToken = Some ''old-access'',
         ebayOAuthConnected = True, ebayOAuthUsername = Some ''seller''\<rparr>, demo_world)"
proof -
  have "\<not> isExpired (demo_io 700000) (Some 1000000)"
    by (simp add: isExpired_def EXPIRY_BUFFER_MS_def demo_io_def)
  then show ?thesis
    by (simp add: resolve_def base_config_def Let_def demo_owner_def demo_env_def truthy_sealed
        decrypt_sealed or_null_def EXPIRY_BUFFER_MS_def demo_token_data_def
        del: decrypt_utf8.simps)
      (simp add: demo_io_def demo_world_def demo_token_data_def)
qed

section \<open>What the callback stores\<close>

lemma callback_success:
  assumes "error q \<noteq> Some ''access_denied''" and "error q \<noteq> Some ''consent_declined''"
    and "ebayOAuthState s = Some st" and "st \<noteq> []" and "state q = Some st"
    and "code q = Some c" and "c \<noteq> []"
    and "truthy (EBAY_APP_CLIENT_ID e)" and "truthy (EBAY_APP_CLIENT_SECRET e)"
    and "truthy (EBAY_RUNAME e)" and "SESSION_SECRET e = Some k"
    and "token_response x = Response True (Some d)"
    and "access_token d = Some a" and "a \<noteq> []"
    and "\<not> truthy (refresh_token d)"
    and "\<not> update_fails x"
  shows "\<exists>encA.
           encrypt_utf8 P (SESSION_SECRET e) (iv1 x) (Some a) = Inr (Some encA)
         \<and> snd (callback P e x q s w) =
             (s\<lparr>ebayOAuthState := None\<rparr>, Redirect ''/config.html?ebay_oauth=success'')
         \<and> users (fst (callback P e x q s w)) =
             update_where (accountId s)
               (\<lambda>u. u\<lparr>ebay_oauth_access_token := Some encA,
                       ebay_oauth_refresh_token := None,
                       ebay_oauth_token_expiry := Some (now x + or_7200 (expires_in d) * 1000),
                       ebay_oauth_username := identity_label (identity_response x),
                       updated_at := db_now x\<rparr>) (users w)"
proof -
  obtain encA where encA: "encrypt_utf8 P (Some k) (iv1 x) (Some a) = Inr (Some encA)"
    using encrypt_Some [OF assms(14)] by blast
  have store: "store_tokens P e x d name acct w0 =
      Inr (w0\<lparr>users := update_where acct
               (\<lambda>u. u\<lparr>ebay_oauth_access_token := Some encA,
                       ebay_oauth_refresh_token := None,
                       ebay_oauth_token_expiry := Some (now x + or_7200 (expires_in d) * 1000),
                       ebay_oauth_username := name,
                       updated_at := db_now x\<rparr>) (users w0)\<rparr>)" for name acct w0
    using assms(11,13,15,16) encA
    by (simp add: store_tokens_def Let_def or_null_def del: encrypt_utf8.simps)
  have "exchange P e x c (s\<lparr>ebayOAuthState := None\<rparr>) w =
      (w\<lparr>calls := calls w @ [Code_exchange (basic_credentials (or_empty (EBAY_APP_CLIENT_ID e))
                 (or_empty (EBAY_APP_CLIENT_SECRET e))) c (or_empty (EBAY_RUNAME e)),
               Identity_call a],
         users := update_where (accountId s)
               (\<lambda>u. u\<lparr>ebay_oauth_access_token := Some encA,
                       ebay_oauth_refresh_token := None,
                       ebay_oauth_token_expiry := Some (now x + or_7200 (expires_in d) * 1000),
                       ebay_oauth_username := identity_label (identity_response x),
                       updated_at := db_now x\<rparr>) (users w)\<rparr>,
       Redirect ''/config.html?ebay_oauth=success'')"
    using assms(12-14) by (simp add: exchange_def Let_def store)
  with assms(1-11) encA show ?thesis
    by (intro exI [of _ encA]) (simp add: callback_def Let_def del: encrypt_utf8.simps)
qed

text \<open>
  Claim C1, amended. On a successful code exchange whose answer has no refresh token, the
  single update of the callback sets the owner's \<open>ebay_oauth_refresh_token\<close> to
  \<open>null\<close>, together with the encrypted new access token, the expiry
  \<open>now + expires_in * 1000\<close> (7200 s when omitted) and the identity label; the state
  slot is consumed and the redirect reports success.
\<close>

theorem callback_replaces_refresh_token:
  assumes "error q \<noteq> Some ''access_denied''" and "error q \<noteq> Some ''consent_declined''"
    and "ebayOAuthState s = Some st" and "st \<noteq> []" and "state q = Some st"
    and "code q = Some c" and "c \<noteq> []"
    and "truthy (EBAY_APP_CLIENT_ID e)" and "truthy (EBAY_APP_CLIENT_SECRET e)"
    and "truthy (EBAY_RUNAME e)" and "SESSION_SECRET e = Some k"
    and "token_response x = Response True (Some d)"
    and "access_token d = Some a" and "a \<noteq> []"
    and "\<not> truthy (refresh_token d)"
    and "\<not> update_fails x"
  shows "\<exists>encA.
           encrypt_utf8 P (SESSION_SECRET e) (iv1 x) (Some a) = Inr (Some encA)
         \<and> snd (callback P e x q s w) =
             (s\<lparr>ebayOAuthState := None\<rparr>, Redirect ''/config.html?ebay_oauth=success'')
         \<and> users (fst (callback P e x q s w)) =
             update_where (accountId s)
               (\<lambda>u. u\<lparr>ebay_oauth_access_token := Some encA,
                       ebay_oauth_refresh_token := None,
                       ebay_oauth_token_expiry := Some (now x + or_7200 (expires_in d) * 1000),
                       ebay_oauth_username := identity_label (identity_response x),
                       updated_at := db_now x\<rparr>) (users w)"
  using assms by (rule callback_success)

text \<open>
  The callback of the demo account: the OAuth columns of the owner are replaced, the
  manual keys are not touched.
\<close>

theorem callback_replaces_refresh_token_witness:
  "snd (callback demo_crypto demo_env (demo_io 5)
          \<lparr>code = Some ''c0de'', state = Some ''5f2a'', error = None\<rparr> demo_session demo_world) =
     (demo_session\<lparr>ebayOAuthState := None\<rparr>, Redirect ''/config.html?ebay_oauth=success'')
   \<and> map ebay_oauth_token_expiry (users (fst (callback demo_crypto demo_env (demo_io 5)
          \<lparr>code = Some ''c0de'', state = Some ''5f2a'', error = None\<rparr> demo_session demo_world))) =
     [Some 3600005, None]
   \<and> map ebay_oauth_username (users (fst (callback demo_crypto demo_env (demo_io 5)
          \<lparr>code = Some ''c0de'', state = Some ''5f2a'', error = None\<rparr> demo_session demo_world))) =
     [Some ''seller2'', None]
   \<and> map ebay_token (users (fst (callback demo_crypto demo_env (demo_io 5)
          \<lparr>code = Some ''c0de'', state = Some ''5f2a'', error = None\<rparr> demo_session demo_world))) =
     [sealed ''manual-token'', None]"
proof -
  let ?q = "\<lparr>code = Some ''c0de'', state = Some ''5f2a'', error = None\<rparr>"
  let ?x = "demo_io 5"
  have h: "error ?q \<noteq> Some ''access_denied''" "error ?q \<noteq> Some ''consent_declined''"
    "ebayOAuthState demo_session = Some ''5f2a''" "''5f2a'' \<noteq> []" "state ?q = Some ''5f2a''"
    "code ?q = Some ''c0de''" "''c0de'' \<noteq> []"
    "truthy (EBAY_APP_CLIENT_ID demo_env)" "truthy (EBAY_APP_CLIENT_SECRET demo_env)"
    "truthy (EBAY_RUNAME demo_env)" "SESSION_SECRET demo_env = Some ''k''"
    "token_response ?x = Response True (Some demo_token_data)"
    "access_token demo_token_data = Some ''new-access''" "''new-access'' \<noteq> []"
    "\<not> truthy (refresh_token demo_token_data)"
    "\<not> update_fails ?x"
    by (simp_all add: demo_session_def demo_env_def demo_io_def demo_token_data_def)
  from callback_replaces_refresh_token [OF h, of demo_crypto demo_world]
  obtain encA where
    r: "snd (callback demo_crypto demo_env ?x ?q demo_session demo_world) =
          (demo_session\<lparr>ebayOAuthState := None\<rparr>, Redirect ''/config.html?ebay_oauth=success'')"
    and u: "users (fst (callback demo_crypto demo_env ?x ?q demo_session demo_world)) =
          update_where (accountId demo_session)
            (\<lambda>u. u\<lparr>ebay_oauth_access_token := Some encA,
                    ebay_oauth_refresh_token := None,
                    ebay_oauth_token_expiry :=
                      Some (now ?x + or_7200 (expires_in demo_token_data) * 1000),
                    ebay_oauth_username := identity_label (identity_response ?x),
                    updated_at := db_now ?x\<rparr>) (users demo_world)"
    by blast
  from r show ?thesis unfolding u
    by (simp add: demo_world_def demo_owner_def demo_sub_def demo_io_def demo_token_data_def
        demo_session_def identity_label_def or_null_def)
qed

text \<open>
  Claim C1 as stated fails: the owner had a refresh token stored, the answer of the
  provider has none, and after the successful callback the column is \<open>null\<close>.
\<close>

theorem callback_keeps_refresh_token_counterexample:
  "ebay_oauth_refresh_token demo_owner = sealed ''old-refresh''
   \<and> sealed ''old-refresh'' \<noteq> None
   \<and> token_response (demo_io 5) = Response True (Some demo_token_data)
   \<and> refresh_token demo_token_data = None
   \<and> snd (snd (callback demo_crypto demo_env (demo_io 5)
          \<lparr>code = Some ''c0de'', state = Some ''5f2a'', error = None\<rparr> demo_session demo_world)) =
       Redirect ''/config.html?ebay_oauth=success''
   \<and> map ebay_oauth_refresh_token (users demo_world) = [sealed ''old-refresh'', None]
   \<and> map ebay_oauth_refresh_token (users (fst (callback demo_crypto demo_env (demo_io 5)
          \<lparr>code = Some ''c0de'', state = Some ''5f2a'', error = None\<rparr> demo_session demo_world))) =
       [None, None]"
proof -
  let ?q = "\<lparr>code = Some ''c0de'', state = Some ''5f2a'', error = None\<rparr>"
  let ?x = "demo_io 5"
  have h: "error ?q \<noteq> Some ''access_denied''" "error ?q \<noteq> Some ''consent_declined''"
    "ebayOAuthState demo_session = Some ''5f2a''" "''5f2a'' \<noteq> []" "state ?q = Some ''5f2a''"
    "code ?q = Some ''c0de''" "''c0de'' \<noteq> []"
    "truthy (EBAY_APP_CLIENT_ID demo_env)" "truthy (EBAY_APP_CLIENT_SECRET demo_env)"
    "truthy (EBAY_RUNAME demo_env)" "SESSION_SECRET demo_env = Some ''k''"
    "token_response ?x = Response True (Some demo_token_data)"
    "access_token demo_token_data = Some ''new-access''" "''new-access'' \<noteq> []"
    "\<not> truthy (refresh_token demo_token_data)"
    "\<not> update_fails ?x"
    by (simp_all add: demo_session_def demo_env_def demo_io_def demo_token_data_def)
  from callback_success [OF h, of demo_crypto demo_world]
  obtain encA where
    r: "snd (callback demo_crypto demo_env ?x ?q demo_session demo_world) =
          (demo_session\<lparr>ebayOAuthState := None\<rparr>, Redirect ''/config.html?ebay_oauth=success'')"
    and u: "users (fst (callback demo_crypto demo_env ?x ?q demo_session demo_world)) =
          update_where (accountId demo_session)
            (\<lambda>u. u\<lparr>ebay_oauth_access_token := Some encA,
                    ebay_oauth_refresh_token := None,
                    ebay_oauth_token_expiry :=
                      Some (now ?x + or_7200 (expires_in demo_token_data) * 1000),
                    ebay_oauth_username := identity_label (identity_response ?x),
                    updated_at := db_now ?x\<rparr>) (users demo_world)"
    by blast
  have "map ebay_oauth_refresh_token
          (users (fst (callback demo_crypto demo_env ?x ?q demo_session demo_world))) = [None, None]"
    unfolding u
    by (simp add: demo_world_def demo_owner_def demo_sub_def demo_session_def)
  moreover have "snd (snd (callback demo_crypto demo_env ?x ?q demo_session demo_world)) =
      Redirect ''/config.html?ebay_oauth=success''"
    using r by simp
  moreover have "ebay_oauth_refresh_token demo_owner = sealed ''old-refresh''"
    "map ebay_oauth_refresh_token (users demo_world) = [sealed ''old-refresh'', None]"
    by (simp_all add: demo_world_def demo_owner_def demo_sub_def)
  moreover have "sealed ''old-refresh'' \<noteq> None"
    by (simp add: sealed_not_None)
  moreover have "token_response ?x = Response True (Some demo_token_data)"
    "refresh_token demo_token_data = None"
    by (simp_all add: demo_io_def demo_token_data_def)
  ultimately show ?thesis by blast
qed

section \<open>The configuration write\<close>

lemma put_blank:
  "put_config P e x blank_token_body s rows = (rows, Json_success)"
  by (simp add: put_config_def put_profile_def put_template_def blank_token_body_def)

lemma mask_sealed:
  "s \<noteq> [] \<Longrightarrow> mask demo_crypto demo_env (sealed s) =
     \<lparr>is_set = True, preview = take 6 s @ ''...'' @ drop (length s - 4) s\<rparr>"
  by (simp add: mask_def truthy_sealed decrypt_sealed demo_env_def del: decrypt_utf8.simps)

text \<open>
  Claim C2. The code does not do what the claim says on the body
  \<open>{ "ebay_token": "" }\<close> sent by an admin: the guard
  \<open>ebay_token || ebay_client_id || ebay_client_secret\<close> is false, step 2 is skipped, the
  stored token stays, and the following read shows it set, with its preview. The same blank
  value sent along with a non-empty client id does clear the token, as the claim says.
\<close>

theorem blank_token_not_cleared:
  "body_ebay_token blank_token_body = Str []
   \<and> sess_role demo_session = Some ''admin''
   \<and> put_config demo_crypto demo_env (demo_io 5) blank_token_body demo_session (users demo_world) =
       (users demo_world, Json_success)
   \<and> map ebay_token (users demo_world) = [sealed ''manual-token'', None]
   \<and> sealed ''manual-token'' \<noteq> None
   \<and> (case get_config demo_crypto demo_env (demo_io 6)
              (fst (put_config demo_crypto demo_env (demo_io 5) blank_token_body demo_session
                      (users demo_world))) demo_session of
         Inl r \<Rightarrow> None
       | Inr v \<Rightarrow> view_ebay_token v) =
       Some \<lparr>is_set = True, preview = ''manual...oken''\<rparr>
   \<and> map ebay_token
        (fst (put_config demo_crypto demo_env (demo_io 5)
                (blank_token_body\<lparr>body_ebay_client_id := Str ''new-id''\<rparr>) demo_session
                (users demo_world))) = [None, None]"
proof -
  have "(case get_config demo_crypto demo_env (demo_io 6) (users demo_world) demo_session of
         Inl r \<Rightarrow> None
       | Inr v \<Rightarrow> view_ebay_token v) = Some (mask demo_crypto demo_env (sealed ''manual-token''))"
    by (simp add: get_config_def Let_def owner_column_def demo_io_def demo_session_def
        demo_world_def demo_owner_def demo_sub_def)
  moreover have "map ebay_token
        (fst (put_config demo_crypto demo_env (demo_io 5)
                (blank_token_body\<lparr>body_ebay_client_id := Str ''new-id''\<rparr>) demo_session
                (users demo_world))) = [None, None]"
  proof -
    obtain t where t: "encrypt_utf8 demo_crypto (Some ''k'') ''nonce-two-12'' (Some ''new-id'') = Inr (Some t)"
      using encrypt_Some [of "''new-id''"] by blast
    have "put_keys demo_crypto demo_env (demo_io 5)
            (blank_token_body\<lparr>body_ebay_client_id := Str ''new-id''\<rparr>) demo_session rows =
          Inr (update_where (Some 1)
                 (set_keys (blank_token_body\<lparr>body_ebay_client_id := Str ''new-id''\<rparr>)
                    None (Some t) None 55) rows)" for rows
      using t
      by (simp add: put_keys_def key_value_def blank_token_body_def demo_env_def demo_io_def
          demo_session_def del: encrypt_utf8.simps)
    then show ?thesis
      by (simp add: put_config_def put_profile_def put_template_def demo_session_def)
         (simp add: blank_token_body_def set_keys_def Let_def demo_world_def demo_owner_def
           demo_sub_def)
  qed
  ultimately show ?thesis
    by (simp add: put_blank mask_sealed sealed_not_None)
       (simp add: blank_token_body_def demo_session_def demo_world_def demo_owner_def demo_sub_def)
qed

section \<open>Modified tokens\<close>

















end
